theory Spec2Isabelle
  imports Complex_Main
begin

section \<open>Numbers\<close>

text \<open>
  A TypeScript \<open>number\<close> is modelled as an exact real extended with the three special
  values of IEEE arithmetic that the code can produce or receive: the two infinities and
  NaN. Rounding, overflow of finite values and the sign of zero are not modelled (a zero
  divisor is taken as \<open>+0\<close>). Every operator of the source is one operation below, with
  the special cases of the language standard written out. The special values arise
  where the code divides by zero or receives them as prices; a property that depends on
  the size of the prices is stated for prices of moderate size, which keep every
  intermediate value of the code inside the range of a double.
\<close>

datatype jsnum = Num real | PInf | NInf | NaN

text \<open>The infinity with the sign of a finite factor; \<open>0 * Infinity\<close> and \<open>0 / 0\<close> are NaN.\<close>

definition inf_of_sign :: "real \<Rightarrow> jsnum" where
  "inf_of_sign s = (if s = 0 then NaN else if 0 < s then PInf else NInf)"

fun jneg :: "jsnum \<Rightarrow> jsnum" where
  "jneg (Num a) = Num (- a)"
| "jneg PInf = NInf"
| "jneg NInf = PInf"
| "jneg NaN = NaN"

text \<open>\<open>a + b\<close>\<close>

fun jadd :: "jsnum \<Rightarrow> jsnum \<Rightarrow> jsnum" where
  "jadd (Num a) (Num b) = Num (a + b)"
| "jadd NaN _ = NaN"
| "jadd _ NaN = NaN"
| "jadd PInf NInf = NaN"
| "jadd NInf PInf = NaN"
| "jadd PInf _ = PInf"
| "jadd _ PInf = PInf"
| "jadd NInf _ = NInf"
| "jadd _ NInf = NInf"

text \<open>\<open>a - b\<close>\<close>

definition jsub :: "jsnum \<Rightarrow> jsnum \<Rightarrow> jsnum" where
  "jsub a b = jadd a (jneg b)"

text \<open>\<open>a * b\<close>\<close>

fun jmul :: "jsnum \<Rightarrow> jsnum \<Rightarrow> jsnum" where
  "jmul (Num a) (Num b) = Num (a * b)"
| "jmul NaN _ = NaN"
| "jmul _ NaN = NaN"
| "jmul (Num a) PInf = inf_of_sign a"
| "jmul (Num a) NInf = inf_of_sign (- a)"
| "jmul PInf (Num b) = inf_of_sign b"
| "jmul NInf (Num b) = inf_of_sign (- b)"
| "jmul PInf PInf = PInf"
| "jmul NInf NInf = PInf"
| "jmul PInf NInf = NInf"
| "jmul NInf PInf = NInf"

text \<open>\<open>a / b\<close>: a finite value over zero is an infinity, \<open>0 / 0\<close> is NaN.\<close>

fun jdiv :: "jsnum \<Rightarrow> jsnum \<Rightarrow> jsnum" where
  "jdiv (Num a) (Num b) = (if b = 0 then inf_of_sign a else Num (a / b))"
| "jdiv NaN _ = NaN"
| "jdiv _ NaN = NaN"
| "jdiv (Num a) PInf = Num 0"
| "jdiv (Num a) NInf = Num 0"
| "jdiv PInf (Num b) = (if 0 \<le> b then PInf else NInf)"
| "jdiv NInf (Num b) = (if 0 \<le> b then NInf else PInf)"
| "jdiv PInf PInf = NaN"
| "jdiv PInf NInf = NaN"
| "jdiv NInf PInf = NaN"
| "jdiv NInf NInf = NaN"

text \<open>\<open>a < b\<close>: false as soon as one side is NaN.\<close>

fun jlt :: "jsnum \<Rightarrow> jsnum \<Rightarrow> bool" where
  "jlt (Num a) (Num b) = (a < b)"
| "jlt NaN _ = False"
| "jlt _ NaN = False"
| "jlt PInf _ = False"
| "jlt _ NInf = False"
| "jlt NInf _ = True"
| "jlt _ PInf = True"

text \<open>\<open>a > b\<close>\<close>

definition jgt :: "jsnum \<Rightarrow> jsnum \<Rightarrow> bool" where
  "jgt a b = jlt b a"

text \<open>\<open>a === b\<close> on numbers: NaN is equal to nothing, itself included.\<close>

fun jeq :: "jsnum \<Rightarrow> jsnum \<Rightarrow> bool" where
  "jeq NaN _ = False"
| "jeq _ NaN = False"
| "jeq a b = (a = b)"

text \<open>\<open>a >= b\<close>\<close>

definition jge :: "jsnum \<Rightarrow> jsnum \<Rightarrow> bool" where
  "jge a b = (jlt b a \<or> jeq a b)"

text \<open>\<open>Math.sqrt\<close>, \<open>Math.abs\<close>, \<open>Math.pow(x, 2)\<close>, \<open>Math.min\<close>, \<open>Math.max\<close>\<close>

fun jsqrt :: "jsnum \<Rightarrow> jsnum" where
  "jsqrt (Num a) = (if a < 0 then NaN else Num (sqrt a))"
| "jsqrt PInf = PInf"
| "jsqrt NInf = NaN"
| "jsqrt NaN = NaN"

fun jabs :: "jsnum \<Rightarrow> jsnum" where
  "jabs (Num a) = Num \<bar>a\<bar>"
| "jabs PInf = PInf"
| "jabs NInf = PInf"
| "jabs NaN = NaN"

definition jpow2 :: "jsnum \<Rightarrow> jsnum" where
  "jpow2 x = jmul x x"

definition jmin :: "jsnum \<Rightarrow> jsnum \<Rightarrow> jsnum" where
  "jmin a b = (if a = NaN \<or> b = NaN then NaN else if jlt b a then b else a)"

definition jmax :: "jsnum \<Rightarrow> jsnum \<Rightarrow> jsnum" where
  "jmax a b = (if a = NaN \<or> b = NaN then NaN else if jlt a b then b else a)"

text \<open>Truthiness of an optional number, as \<open>x || y\<close> tests it: \<open>undefined\<close>, \<open>0\<close> and
  NaN are falsy.\<close>

fun or_else :: "jsnum option \<Rightarrow> jsnum \<Rightarrow> jsnum" where
  "or_else None d = d"
| "or_else (Some x) d = (if x = Num 0 \<or> x = NaN then d else x)"

text \<open>\<open>xs.reduce((a, b) => a + b, 0)\<close>\<close>

definition jsum :: "jsnum list \<Rightarrow> jsnum" where
  "jsum xs = foldl jadd (Num 0) xs"

text \<open>A finite number, and the real it stands for.\<close>

fun finite_num :: "jsnum \<Rightarrow> bool" where
  "finite_num (Num _) = True"
| "finite_num _ = False"

fun the_num :: "jsnum \<Rightarrow> real" where
  "the_num (Num a) = a"
| "the_num _ = 0"

section \<open>Array slices\<close>

text \<open>
  \<open>Array.prototype.slice\<close>: a negative index counts from the end, and both ends are
  clamped to the array.
\<close>

definition rel_index :: "int \<Rightarrow> nat \<Rightarrow> nat" where
  "rel_index k len = (if k < 0 then nat (max (int len + k) 0) else min (nat k) len)"

definition js_slice :: "int \<Rightarrow> int \<Rightarrow> 'a list \<Rightarrow> 'a list" where
  "js_slice s e xs =
     (let a = rel_index s (length xs); b = rel_index e (length xs)
      in take (b - a) (drop a xs))"

definition js_slice_from :: "int \<Rightarrow> 'a list \<Rightarrow> 'a list" where
  "js_slice_from s xs = drop (rel_index s (length xs)) xs"

section \<open>Candles and whole-series enrichment\<close>

text \<open>\<open>ChartDataPoint\<close> of the type declarations; an optional field is an \<open>option\<close>.\<close>

record ChartDataPoint =
  date :: string
  price :: jsnum
  volume :: "jsnum option"
  high :: "jsnum option"
  low :: "jsnum option"
  sma20 :: "jsnum option"
  sma50 :: "jsnum option"
  bollingerUpper :: "jsnum option"
  bollingerLower :: "jsnum option"

text \<open>The body of the callback of \<open>data.map\<close> in \<open>enrichDataWithIndicators\<close>, split into
  the values it computes from the prices up to \<open>index\<close>.\<close>

definition window_sma :: "nat \<Rightarrow> jsnum list \<Rightarrow> jsnum option" where
  "window_sma n slice =
     (if n \<le> length slice
      then Some (jdiv (jsum (js_slice_from (- int n) slice)) (Num (real n)))
      else None)"

definition window_bands :: "jsnum option \<Rightarrow> jsnum list \<Rightarrow> jsnum option \<times> jsnum option" where
  "window_bands m slice =
     (case m of
        None \<Rightarrow> (None, None)
      | Some sma \<Rightarrow>
          if 20 \<le> length slice then
            (let periodSlice = js_slice_from (- 20) slice;
                 squaredDiffs = map (\<lambda>val. jpow2 (jsub val sma)) periodSlice;
                 stdDev = jsqrt (jdiv (jsum squaredDiffs) (Num 20))
             in (Some (jadd sma (jmul stdDev (Num 2))), Some (jsub sma (jmul stdDev (Num 2)))))
          else (None, None))"

definition enrich_point :: "jsnum list \<Rightarrow> ChartDataPoint \<Rightarrow> nat \<Rightarrow> ChartDataPoint" where
  "enrich_point prices point index =
     (let slice = js_slice 0 (int index + 1) prices;
          s20 = window_sma 20 slice;
          s50 = window_sma 50 slice;
          bands = window_bands s20 slice
      in point\<lparr>sma20 := s20, sma50 := s50,
               bollingerUpper := fst bands, bollingerLower := snd bands\<rparr>)"

definition enrichDataWithIndicators :: "ChartDataPoint list \<Rightarrow> ChartDataPoint list" where
  "enrichDataWithIndicators data =
     (let prices = map price data
      in map (\<lambda>(point, index). enrich_point prices point index)
             (zip data [0 ..< length data]))"

section \<open>Indicator engine\<close>

text \<open>\<open>xs[i]\<close> in an arithmetic expression: a read outside the array is \<open>undefined\<close>,
  which arithmetic turns into NaN.\<close>

definition num_at :: "jsnum list \<Rightarrow> int \<Rightarrow> jsnum" where
  "num_at xs i = (if 0 \<le> i \<and> i < int (length xs) then xs ! nat i else NaN)"

definition calculateSMA :: "jsnum list \<Rightarrow> nat \<Rightarrow> jsnum" where
  "calculateSMA data period =
     (if length data < period then Num 0
      else
        (let slice = js_slice_from (int (length data) - int period) data;
             sum = jsum slice
         in jdiv sum (Num (real period))))"

definition calculateStdDev :: "jsnum list \<Rightarrow> nat \<Rightarrow> jsnum" where
  "calculateStdDev data period =
     (if length data < period then Num 0
      else
        (let sma = calculateSMA data period;
             slice = js_slice_from (int (length data) - int period) data;
             squaredDiffs = map (\<lambda>val. jpow2 (jsub val sma)) slice;
             avgSquaredDiff = jdiv (jsum squaredDiffs) (Num (real period))
         in jsqrt avgSquaredDiff))"

text \<open>One round of the loop of \<open>calculateRSI\<close> on the pair \<open>(gains, losses)\<close>.\<close>

definition rsi_step :: "jsnum list \<Rightarrow> nat \<Rightarrow> jsnum \<times> jsnum \<Rightarrow> jsnum \<times> jsnum" where
  "rsi_step prices i acc =
     (let diff = jsub (num_at prices (int i)) (num_at prices (int i - 1))
      in if jge diff (Num 0) then (jadd (fst acc) diff, snd acc)
         else (fst acc, jsub (snd acc) diff))"

definition calculateRSI :: "jsnum list \<Rightarrow> nat \<Rightarrow> jsnum" where
  "calculateRSI prices period =
     (if length prices < period + 1 then Num 50
      else
        (let acc = fold (rsi_step prices) [length prices - period ..< length prices]
                     (Num 0, Num 0);
             avgGain = jdiv (fst acc) (Num (real period));
             avgLoss = jdiv (snd acc) (Num (real period))
         in if jeq avgLoss (Num 0) then Num 100
            else
              (let rs = jdiv avgGain avgLoss
               in jsub (Num 100) (jdiv (Num 100) (jadd (Num 1) rs)))))"

text \<open>One round of the loop of \<open>calculateATR\<close>. The guard of the function keeps
  \<open>1 \<le> i < data.length\<close>, so both reads are inside the array.\<close>

definition atr_step :: "ChartDataPoint list \<Rightarrow> nat \<Rightarrow> jsnum \<Rightarrow> jsnum" where
  "atr_step data i trSum =
     (let hi = or_else (high (data ! i)) (price (data ! i));
          lo = or_else (low (data ! i)) (price (data ! i));
          prevClose = price (data ! (i - 1));
          tr = jmax (jmax (jsub hi lo) (jabs (jsub hi prevClose))) (jabs (jsub lo prevClose))
      in jadd trSum tr)"

definition calculateATR :: "ChartDataPoint list \<Rightarrow> nat \<Rightarrow> jsnum" where
  "calculateATR data period =
     (if length data < period + 1 then Num 0
      else jdiv (fold (atr_step data) [length data - period ..< length data] (Num 0))
                (Num (real period)))"

datatype Trend = UP | DOWN | SIDEWAYS

text \<open>The signal strings of both the snapshot (\<open>BUY\<close>, \<open>SELL\<close>, \<open>NEUTRAL\<close>) and the
  prediction (\<open>BUY\<close>, \<open>SELL\<close>, \<open>HOLD\<close>).\<close>

datatype Signal = BUY | SELL | HOLD | NEUTRAL

record Macd =
  macd_value :: jsnum
  macd_signal :: jsnum
  histogram :: jsnum

record Bollinger =
  upper :: jsnum
  middle :: jsnum
  lower :: jsnum

text \<open>\<open>TechnicalIndicators\<close>; the fields \<open>sma20\<close>, \<open>sma50\<close> and \<open>signal\<close> carry the
  prefix \<open>ind_\<close>, since record fields share one name space.\<close>

record TechnicalIndicators =
  rsi :: jsnum
  ind_sma20 :: jsnum
  ind_sma50 :: jsnum
  macd :: Macd
  bollinger :: Bollinger
  atr :: jsnum
  trend :: Trend
  ind_signal :: Signal

definition performTechnicalAnalysis :: "ChartDataPoint list \<Rightarrow> TechnicalIndicators" where
  "performTechnicalAnalysis data =
     (let prices = map price data;
          rsi = calculateRSI prices 14;
          sma20 = calculateSMA prices 20;
          sma50 = calculateSMA prices 50;
          stdDev20 = calculateStdDev prices 20;
          bollinger = \<lparr>upper = jadd sma20 (jmul stdDev20 (Num 2)),
                       middle = sma20,
                       lower = jsub sma20 (jmul stdDev20 (Num 2))\<rparr>;
          atr = calculateATR data 14;
          ema12 = calculateSMA prices 12;
          ema26 = calculateSMA prices 26;
          macdValue = jsub ema12 ema26;
          trend = (if jgt sma20 sma50 then UP else if jlt sma20 sma50 then DOWN else SIDEWAYS);
          signal = (if jlt rsi (Num 30) \<and> trend = UP then BUY
                    else if jgt rsi (Num 70) \<and> trend = DOWN then SELL
                    else NEUTRAL)
      in \<lparr>rsi = rsi, ind_sma20 = sma20, ind_sma50 = sma50,
          macd = \<lparr>macd_value = macdValue,
                   macd_signal = jmul macdValue (Num 0.9),
                   histogram = jmul macdValue (Num 0.1)\<rparr>,
          bollinger = bollinger, atr = atr, trend = trend, ind_signal = signal\<rparr>)"

section \<open>Signal scorer\<close>

record Features =
  rsiNormalized :: jsnum
  trendStrength :: jsnum
  volatility :: jsnum

record MLPrediction =
  signal :: Signal
  confidence :: jsnum
  features :: Features

definition bbWidth_of :: "TechnicalIndicators \<Rightarrow> jsnum" where
  "bbWidth_of indicators =
     jdiv (jsub (upper (bollinger indicators)) (lower (bollinger indicators)))
          (middle (bollinger indicators))"

definition trendScore_of :: "TechnicalIndicators \<Rightarrow> jsnum" where
  "trendScore_of indicators =
     (if trend indicators = UP then Num 1
      else if trend indicators = DOWN then Num (- 1) else Num 0)"

text \<open>The local variable \<open>score\<close> of \<open>predictSignalXGBoost\<close> after the four nodes, each
  \<open>let\<close> one assignment of the source.\<close>

definition xgb_score :: "TechnicalIndicators \<Rightarrow> jsnum \<Rightarrow> jsnum" where
  "xgb_score indicators currentPrice =
     (let bbWidth = bbWidth_of indicators;
          trendScore = trendScore_of indicators;
          score = Num 0;
          score = (if jeq trendScore (Num 1) \<and> jgt currentPrice (ind_sma50 indicators)
                   then jadd score (Num 30) else score);
          score = (if jeq trendScore (Num (- 1)) \<and> jlt currentPrice (ind_sma50 indicators)
                   then jsub score (Num 30) else score);
          score = (if jlt (rsi indicators) (Num 30) then jadd score (Num 40) else score);
          score = (if jgt (rsi indicators) (Num 70) then jsub score (Num 40) else score);
          score = (if jlt bbWidth (Num 0.05)
                   then
                     (let score = (if jgt currentPrice (upper (bollinger indicators))
                                   then jadd score (Num 20) else score);
                          score = (if jlt currentPrice (lower (bollinger indicators))
                                   then jsub score (Num 20) else score)
                      in score)
                   else score);
          score = (if jgt (histogram (macd indicators)) (Num 0)
                   then jadd score (Num 10) else jsub score (Num 10))
      in score)"

text \<open>\<open>predictSignalXGBoost\<close>. The value of \<open>Math.random()\<close> is the argument \<open>rnd\<close>, a
  number in \<open>[0, 1)\<close>.\<close>

definition predictSignalXGBoost :: "real \<Rightarrow> TechnicalIndicators \<Rightarrow> jsnum \<Rightarrow> MLPrediction" where
  "predictSignalXGBoost rnd indicators currentPrice =
     (let rsiNorm = jdiv (jsub (rsi indicators) (Num 50)) (Num 50);
          bbWidth = bbWidth_of indicators;
          trendScore = trendScore_of indicators;
          score = xgb_score indicators currentPrice;
          confidence = jmin (jabs score) (Num 98);
          confidence = jsub confidence (jmul (Num rnd) (Num 5));
          signal = (if jgt score (Num 25) then BUY
                    else if jlt score (Num (- 25)) then SELL else HOLD)
      in \<lparr>signal = signal,
          confidence = jmax (Num 0) confidence,
          features = \<lparr>rsiNormalized = rsiNorm, trendStrength = trendScore,
                       volatility = bbWidth\<rparr>\<rparr>)"

section \<open>Backtest simulator\<close>

record BacktestResult =
  initialBalance :: jsnum
  finalBalance :: jsnum
  totalReturn :: jsnum
  trades :: nat
  winningTrades :: nat
  maxDrawdown :: jsnum
  equityCurve :: "ChartDataPoint list"

text \<open>The local variables of \<open>runBacktest\<close> that the loop updates.\<close>

record BacktestState =
  balance :: jsnum
  shares :: jsnum
  st_trades :: nat
  st_winningTrades :: nat
  maxBalance :: jsnum
  st_maxDrawdown :: jsnum
  st_equityCurve :: "ChartDataPoint list"

text \<open>A point with the two fields the equity curve sets, \<open>{ date, price }\<close>.\<close>

definition curve_point :: "string \<Rightarrow> jsnum \<Rightarrow> ChartDataPoint" where
  "curve_point d p =
     \<lparr>date = d, price = p, volume = None, high = None, low = None, sma20 = None,
      sma50 = None, bollingerUpper = None, bollingerLower = None\<rparr>"

text \<open>The trading branch of the loop body: the position after the signal is applied.\<close>

definition trade :: "MLPrediction \<Rightarrow> jsnum \<Rightarrow> BacktestState \<Rightarrow> BacktestState" where
  "trade prediction currentPrice st =
     (if jeq (shares st) (Num 0) then
        (if signal prediction = BUY \<and> jgt (confidence prediction) (Num 60)
         then st\<lparr>shares := jdiv (balance st) currentPrice, balance := Num 0,
                 st_trades := st_trades st + 1\<rparr>
         else st)
      else
        (if signal prediction = SELL \<or> signal prediction = HOLD then
           (if signal prediction = SELL then
              (let balance' = jmul (shares st) currentPrice
               in st\<lparr>balance := balance',
                      st_winningTrades :=
                        (if jgt balance' (maxBalance st) then st_winningTrades st + 1
                         else st_winningTrades st),
                      shares := Num 0\<rparr>)
            else st)
         else st))"

text \<open>The equity of a position at a price, \<open>balance + (shares * currentPrice)\<close>.\<close>

definition equity_of :: "BacktestState \<Rightarrow> jsnum \<Rightarrow> jsnum" where
  "equity_of st currentPrice = jadd (balance st) (jmul (shares st) currentPrice)"

text \<open>One round of the loop, at index \<open>i\<close>; \<open>rnd i\<close> is the value \<open>Math.random()\<close> returns
  to the prediction of that round. The loop runs for \<open>i < data.length\<close> only, so
  \<open>data[i]\<close> exists.\<close>

definition backtest_step ::
  "(nat \<Rightarrow> real) \<Rightarrow> ChartDataPoint list \<Rightarrow> nat \<Rightarrow> BacktestState \<Rightarrow> BacktestState" where
  "backtest_step rnd data i st =
     (let historySlice = js_slice 0 (int i + 1) data;
          indicators = performTechnicalAnalysis historySlice;
          currentPrice = price (data ! i);
          prediction = predictSignalXGBoost (rnd i) indicators currentPrice;
          st = trade prediction currentPrice st;
          currentEquity = equity_of st currentPrice;
          st = (if jgt currentEquity (maxBalance st) then st\<lparr>maxBalance := currentEquity\<rparr>
                else st);
          dd = jdiv (jsub (maxBalance st) currentEquity) (maxBalance st);
          st = (if jgt dd (st_maxDrawdown st) then st\<lparr>st_maxDrawdown := dd\<rparr> else st)
      in st\<lparr>st_equityCurve := st_equityCurve st @ [curve_point (date (data ! i)) currentEquity]\<rparr>)"

definition backtest_init :: "jsnum \<Rightarrow> BacktestState" where
  "backtest_init initialBalance' =
     \<lparr>balance = initialBalance', shares = Num 0, st_trades = 0, st_winningTrades = 0,
      maxBalance = initialBalance', st_maxDrawdown = Num 0, st_equityCurve = []\<rparr>"

text \<open>The state after the rounds \<open>50, \<dots>, n - 1\<close> of the loop.\<close>

definition backtest_upto ::
  "(nat \<Rightarrow> real) \<Rightarrow> ChartDataPoint list \<Rightarrow> jsnum \<Rightarrow> nat \<Rightarrow> BacktestState" where
  "backtest_upto rnd data initialBalance' n =
     fold (backtest_step rnd data) [50 ..< n] (backtest_init initialBalance')"

definition runBacktest :: "(nat \<Rightarrow> real) \<Rightarrow> ChartDataPoint list \<Rightarrow> jsnum \<Rightarrow> BacktestResult" where
  "runBacktest rnd data initialBalance' =
     (let st = backtest_upto rnd data initialBalance' (length data);
          finalEquity = (if 0 < length (st_equityCurve st)
                         then price (last (st_equityCurve st)) else initialBalance');
          totalReturn = jmul (jdiv (jsub finalEquity initialBalance') initialBalance') (Num 100)
      in \<lparr>initialBalance = initialBalance', finalBalance = finalEquity,
          totalReturn = totalReturn, trades = st_trades st,
          winningTrades = st_winningTrades st,
          maxDrawdown = jmul (st_maxDrawdown st) (Num 100),
          equityCurve = st_equityCurve st\<rparr>)"

section \<open>Result cache and history provider\<close>

datatype Timeframe = T1m | T5m | T15m | T1h | T4h | T1d | T1w

datatype MarketType = SPOT | FUTURES

fun timeframe_str :: "Timeframe \<Rightarrow> string" where
  "timeframe_str T1m = ''1m''"
| "timeframe_str T5m = ''5m''"
| "timeframe_str T15m = ''15m''"
| "timeframe_str T1h = ''1h''"
| "timeframe_str T4h = ''4h''"
| "timeframe_str T1d = ''1d''"
| "timeframe_str T1w = ''1w''"

fun market_str :: "MarketType \<Rightarrow> string" where
  "market_str SPOT = ''SPOT''"
| "market_str FUTURES = ''FUTURES''"

record CacheEntry =
  timestamp :: int
  data :: "ChartDataPoint list"

text \<open>\<open>DATA_CACHE\<close>, a dictionary from the key string to its entry, and \<open>CACHE_DURATION\<close>
  in milliseconds.\<close>

type_synonym Cache = "string \<rightharpoonup> CacheEntry"

definition CACHE_DURATION :: int where
  "CACHE_DURATION = 60 * 1000"

definition cacheKey :: "string \<Rightarrow> Timeframe \<Rightarrow> MarketType \<Rightarrow> string" where
  "cacheKey symbol interval marketType =
     symbol @ ''-'' @ timeframe_str interval @ ''-'' @ market_str marketType"

text \<open>\<open>toUpperCase\<close> on the letters of a ticker symbol.\<close>

definition upper_char :: "char \<Rightarrow> char" where
  "upper_char c =
     (if (97::nat) \<le> of_char c \<and> of_char c \<le> (122::nat)
      then char_of (of_char c - (32::nat)) else c)"

definition toUpperCase :: "string \<Rightarrow> string" where
  "toUpperCase s = map upper_char s"

text \<open>A request to the exchange: the market, the pair, the interval and the limit that
  make up the URL.\<close>

datatype Request = Klines MarketType string Timeframe nat

text \<open>
  What lies outside the function: the clock (\<open>Date.now()\<close> in milliseconds), the exchange
  (the rows of a response after the mapping to points, or \<open>None\<close> when the request throws
  or the status is not ok) and the history that the random generator \<open>generateHistory\<close>
  returns for a base price and a number of days.
\<close>

record World =
  now :: int
  exchange :: "Request \<Rightarrow> ChartDataPoint list option"
  generateHistory :: "jsnum \<Rightarrow> jsnum \<Rightarrow> ChartDataPoint list"

definition basePriceMap :: "string \<rightharpoonup> jsnum" where
  "basePriceMap =
     [''BTC'' \<mapsto> Num 92000, ''ETH'' \<mapsto> Num 3400, ''SOL'' \<mapsto> Num 145, ''BNB'' \<mapsto> Num 590,
      ''XRP'' \<mapsto> Num 0.60, ''DOGE'' \<mapsto> Num 0.15, ''ADA'' \<mapsto> Num 0.45, ''AVAX'' \<mapsto> Num 35,
      ''DOT'' \<mapsto> Num 7.5, ''LINK'' \<mapsto> Num 14]"

text \<open>The outcome of one call: the series returned, the cache afterwards and the requests
  sent to the exchange, in order.\<close>

record FetchOutcome =
  series :: "ChartDataPoint list"
  cache_after :: Cache
  requests :: "Request list"

text \<open>The part of \<open>fetchCryptoData\<close> after a cache miss: the \<open>try\<close> block, and the
  \<open>catch\<close> block when the request fails.\<close>

definition fetch_live ::
  "World \<Rightarrow> Cache \<Rightarrow> string \<Rightarrow> string \<Rightarrow> Timeframe \<Rightarrow> nat \<Rightarrow> MarketType \<Rightarrow> FetchOutcome" where
  "fetch_live w cache key symbol interval limit marketType =
     (let pair = toUpperCase symbol @ ''USDT'';
          req = Klines marketType pair interval limit
      in case exchange w req of
           Some rows \<Rightarrow>
             (let enrichedData = enrichDataWithIndicators rows
              in \<lparr>series = enrichedData,
                  cache_after = cache(key \<mapsto> \<lparr>timestamp = now w, data = enrichedData\<rparr>),
                  requests = [req]\<rparr>)
         | None \<Rightarrow>
             (let basePrice = or_else (basePriceMap (toUpperCase symbol)) (Num 100);
                  simData = generateHistory w basePrice (jdiv (Num (real limit)) (Num 24))
              in \<lparr>series = enrichDataWithIndicators simData, cache_after = cache,
                  requests = [req]\<rparr>))"

definition fetchCryptoData ::
  "World \<Rightarrow> Cache \<Rightarrow> string \<Rightarrow> Timeframe \<Rightarrow> nat \<Rightarrow> MarketType \<Rightarrow> FetchOutcome" where
  "fetchCryptoData w cache symbol interval limit marketType =
     (let key = cacheKey symbol interval marketType
      in case cache key of
           Some entry \<Rightarrow>
             if now w - timestamp entry < CACHE_DURATION
             then \<lparr>series = data entry, cache_after = cache, requests = []\<rparr>
             else fetch_live w cache key symbol interval limit marketType
         | None \<Rightarrow> fetch_live w cache key symbol interval limit marketType)"

section \<open>Streaming merge\<close>

text \<open>The fields of a kline message that the handler reads, the four prices and volumes
  after \<open>parseFloat\<close>.\<close>

record KlineTick =
  k_t :: int
  k_c :: jsnum
  k_h :: jsnum
  k_l :: jsnum
  k_v :: jsnum

datatype WsMessage = Kline KlineTick | OtherEvent

text \<open>The state of the dashboard that the handler writes.\<close>

record Dashboard =
  history :: "ChartDataPoint list"
  indicators :: "TechnicalIndicators option"
  mlPrediction :: "MLPrediction option"
  backtestResult :: "BacktestResult option"

text \<open>The update-or-append part of the handler, before the enrichment: \<open>formatDate\<close>
  depends on the locale and is an argument.\<close>

definition merge_tick ::
  "(int \<Rightarrow> string) \<Rightarrow> ChartDataPoint list \<Rightarrow> KlineTick \<Rightarrow> ChartDataPoint list" where
  "merge_tick formatDate prev k =
     (let newHistory = prev;
          lastCandle = last newHistory;
          formattedDate = formatDate (k_t k);
          newCandle = \<lparr>date = formattedDate, price = k_c k, volume = Some (k_v k),
                       high = Some (k_h k), low = Some (k_l k), sma20 = None, sma50 = None,
                       bollingerUpper = None, bollingerLower = None\<rparr>
      in if date lastCandle = formattedDate
         then newHistory[length newHistory - 1 :=
                lastCandle\<lparr>date := date newCandle, price := price newCandle,
                             high := high newCandle, low := low newCandle,
                             volume := volume newCandle\<rparr>]
         else
           (let newHistory = newHistory @ [newCandle]
            in if 200 < length newHistory then tl newHistory else newHistory))"

text \<open>The function passed to \<open>setHistory\<close>: the new history. An empty history is returned
  as it is, before \<open>last\<close> is read.\<close>

definition merged_history ::
  "(int \<Rightarrow> string) \<Rightarrow> ChartDataPoint list \<Rightarrow> KlineTick \<Rightarrow> ChartDataPoint list" where
  "merged_history formatDate prev k =
     (if length prev = 0 then prev
      else enrichDataWithIndicators (merge_tick formatDate prev k))"

text \<open>The calls of the recompute pipeline, recorded in the order the handler makes them.\<close>

datatype Recompute = Enrichment | Snapshot | Prediction | Backtest

text \<open>\<open>ws.onmessage\<close>: the dashboard after a message, and the recompute calls made.
  \<open>rnd\<close> is the random value of the prediction, \<open>rnds\<close> those of the backtest.\<close>

definition onmessage ::
  "(int \<Rightarrow> string) \<Rightarrow> real \<Rightarrow> (nat \<Rightarrow> real) \<Rightarrow> Dashboard \<Rightarrow> WsMessage
     \<Rightarrow> Dashboard \<times> Recompute list" where
  "onmessage formatDate rnd rnds d msg =
     (case msg of
        OtherEvent \<Rightarrow> (d, [])
      | Kline k \<Rightarrow>
          if length (history d) = 0 then (d, [])
          else
            (let enrichedHistory = enrichDataWithIndicators (merge_tick formatDate (history d) k);
                 newDashboardIndicators = performTechnicalAnalysis enrichedHistory;
                 currentPrice = price (enrichedHistory ! (length enrichedHistory - 1));
                 newPred = predictSignalXGBoost rnd newDashboardIndicators currentPrice;
                 newBt = runBacktest rnds enrichedHistory (Num 10000)
             in (\<lparr>history = enrichedHistory,
                  indicators = Some newDashboardIndicators,
                  mlPrediction = Some newPred,
                  backtestResult = Some newBt\<rparr>,
                 [Enrichment, Snapshot, Prediction, Backtest])))"

section \<open>Notions of the specification\<close>

text \<open>The window of period \<open>P\<close> that ends at index \<open>i\<close>: the last \<open>P\<close> of the first
  \<open>i + 1\<close> elements.\<close>

definition window :: "nat \<Rightarrow> nat \<Rightarrow> 'a list \<Rightarrow> 'a list" where
  "window P i xs = drop (Suc i - P) (take (Suc i) xs)"

text \<open>A price of moderate size: a finite number of magnitude at most \<open>10^150\<close>. For such
  prices no sum, difference or square below leaves the range of a double.\<close>

fun moderate :: "jsnum \<Rightarrow> bool" where
  "moderate (Num p) = (\<bar>p\<bar> \<le> 10 ^ 150)"
| "moderate _ = False"

text \<open>The deltas over the last \<open>n\<close> transitions, and the relative strength index in the
  words of the specification, written with the operators of the code: the average gain
  is the sum of the positive deltas over 14, the average loss the sum of the absolute
  values of the negative deltas over 14.\<close>

definition last_deltas :: "jsnum list \<Rightarrow> nat \<Rightarrow> jsnum list" where
  "last_deltas prices n =
     map (\<lambda>i. jsub (num_at prices (int i)) (num_at prices (int i - 1)))
       [length prices - n ..< length prices]"

definition averageGain :: "jsnum list \<Rightarrow> jsnum" where
  "averageGain prices =
     jdiv (jsum (filter (\<lambda>d. jgt d (Num 0)) (last_deltas prices 14))) (Num 14)"

definition averageLoss :: "jsnum list \<Rightarrow> jsnum" where
  "averageLoss prices =
     jdiv (jsum (map jabs (filter (\<lambda>d. jlt d (Num 0)) (last_deltas prices 14)))) (Num 14)"

definition rsi_words :: "jsnum list \<Rightarrow> jsnum" where
  "rsi_words prices =
     (if length prices < 15 then Num 50
      else if jeq (averageLoss prices) (Num 0) then Num 100
      else jsub (Num 100)
             (jdiv (Num 100) (jadd (Num 1) (jdiv (averageGain prices) (averageLoss prices)))))"

text \<open>The same notions over exact reals, for sequences of finite prices: the differences
  over the last \<open>n\<close> transitions, the two averages and the index.\<close>

definition deltas :: "real list \<Rightarrow> nat \<Rightarrow> real list" where
  "deltas ps n = map (\<lambda>i. ps ! i - ps ! (i - 1)) [length ps - n ..< length ps]"

definition avgGain :: "real list \<Rightarrow> real" where
  "avgGain ps = sum_list (map (\<lambda>d. max d 0) (deltas ps 14)) / 14"

definition avgLoss :: "real list \<Rightarrow> real" where
  "avgLoss ps = sum_list (map (\<lambda>d. max (- d) 0) (deltas ps 14)) / 14"

definition rsi_spec :: "real list \<Rightarrow> real" where
  "rsi_spec ps =
     (if length ps < 15 then 50
      else if avgLoss ps = 0 then 100
      else 100 - 100 / (1 + avgGain ps / avgLoss ps))"

text \<open>The four nodes of the scorer as the specification lists them, and their sum.\<close>

definition trend_node :: "TechnicalIndicators \<Rightarrow> jsnum \<Rightarrow> real" where
  "trend_node ind p =
     (if trend ind = UP \<and> jgt p (ind_sma50 ind) then 30 else 0)
   + (if trend ind = DOWN \<and> jlt p (ind_sma50 ind) then - 30 else 0)"

definition reversion_node :: "TechnicalIndicators \<Rightarrow> real" where
  "reversion_node ind =
     (if jlt (rsi ind) (Num 30) then 40 else 0) + (if jgt (rsi ind) (Num 70) then - 40 else 0)"

definition squeeze_node :: "TechnicalIndicators \<Rightarrow> jsnum \<Rightarrow> real" where
  "squeeze_node ind p =
     (if jlt (jdiv (jsub (upper (bollinger ind)) (lower (bollinger ind))) (middle (bollinger ind)))
             (Num 0.05)
      then (if jgt p (upper (bollinger ind)) then 20 else 0)
         + (if jlt p (lower (bollinger ind)) then - 20 else 0)
      else 0)"

definition momentum_node :: "TechnicalIndicators \<Rightarrow> real" where
  "momentum_node ind = (if jgt (histogram (macd ind)) (Num 0) then 10 else - 10)"

definition spec_score :: "TechnicalIndicators \<Rightarrow> jsnum \<Rightarrow> real" where
  "spec_score ind p = trend_node ind p + reversion_node ind + squeeze_node ind p + momentum_node ind"


text \<open>No shorting, no leverage: cash and position are finite and not negative.\<close>

definition solvent :: "BacktestState \<Rightarrow> bool" where
  "solvent st = (case (balance st, shares st) of (Num b, Num s) \<Rightarrow> 0 \<le> b \<and> 0 \<le> s | _ \<Rightarrow> False)"

text \<open>The fields of a candle that the enrichment does not write.\<close>

definition core :: "ChartDataPoint \<Rightarrow> string \<times> jsnum \<times> jsnum option \<times> jsnum option \<times> jsnum option" where
  "core c = (date c, price c, volume c, high c, low c)"

text \<open>The candle of a tick, as the handler builds it.\<close>

definition tick_core :: "(int \<Rightarrow> string) \<Rightarrow> KlineTick \<Rightarrow> string \<times> jsnum \<times> jsnum option \<times> jsnum option \<times> jsnum option" where
  "tick_core f k = (f (k_t k), k_c k, Some (k_v k), Some (k_h k), Some (k_l k))"

text \<open>The request that a fetch for a symbol sends.\<close>

definition request_of :: "string \<Rightarrow> Timeframe \<Rightarrow> nat \<Rightarrow> MarketType \<Rightarrow> Request" where
  "request_of symbol interval limit marketType =
     Klines marketType (toUpperCase symbol @ ''USDT'') interval limit"

text \<open>The fallback of a fetch: the enriched history that the generator returns for the
  base price of the symbol, or for 100 when the symbol has none, and \<open>limit / 24\<close> days.\<close>

definition fallback_series :: "World \<Rightarrow> string \<Rightarrow> nat \<Rightarrow> ChartDataPoint list" where
  "fallback_series w symbol limit =
     enrichDataWithIndicators
       (generateHistory w (or_else (basePriceMap (toUpperCase symbol)) (Num 100))
          (jdiv (Num (real limit)) (Num 24)))"

text \<open>An entry is fresh at a time (in milliseconds) when it exists and is younger than 60
  seconds.\<close>

definition fresh :: "Cache \<Rightarrow> string \<Rightarrow> int \<Rightarrow> bool" where
  "fresh cache key t = (case cache key of None \<Rightarrow> False | Some e \<Rightarrow> t - timestamp e < 60000)"

section \<open>Example inputs\<close>

text \<open>Twenty candles, ten at price 0 and then ten at price 2: the window of 20 has mean 1
  and standard deviation 1.\<close>

definition flat_then_up :: "ChartDataPoint list" where
  "flat_then_up = map (curve_point ''t'') (replicate 10 (Num 0) @ replicate 10 (Num 2))"

text \<open>Nineteen candles at 100 and a last one whose price is NaN.\<close>

definition nan_tail :: "ChartDataPoint list" where
  "nan_tail = map (curve_point ''t'') (replicate 19 (Num 100) @ [NaN])"

text \<open>Sixteen prices that rise, dip and rise again.\<close>

definition zigzag :: "jsnum list" where
  "zigzag = map Num [1, 2, 3, 4, 5, 6, 7, 8, 9, 10, 9, 8, 9, 10, 11, 12]"

text \<open>A history of a single candle.\<close>

definition one_candle :: "ChartDataPoint list" where
  "one_candle = [curve_point ''t'' (Num 100)]"

text \<open>A snapshot with narrow bands in an upward trend, oversold.\<close>

definition squeeze_snapshot :: TechnicalIndicators where
  "squeeze_snapshot =
     \<lparr>rsi = Num 25, ind_sma20 = Num 105, ind_sma50 = Num 100,
      macd = \<lparr>macd_value = Num 2, macd_signal = Num 1.8, histogram = Num 0.2\<rparr>,
      bollinger = \<lparr>upper = Num 107, middle = Num 105, lower = Num 103\<rparr>,
      atr = Num 1, trend = UP, ind_signal = BUY\<rparr>"



text \<open>A history of 201 candles.\<close>

definition long_history :: "ChartDataPoint list" where
  "long_history = map (curve_point ''t'') (replicate 201 (Num 100))"

text \<open>A dashboard with no history yet, and a tick.\<close>

definition idle_dashboard :: Dashboard where
  "idle_dashboard = \<lparr>history = [], indicators = None, mlPrediction = None, backtestResult = None\<rparr>"

definition sample_tick :: KlineTick where
  "sample_tick = \<lparr>k_t = 1700000000000, k_c = Num 101, k_h = Num 102, k_l = Num 99, k_v = Num 5\<rparr>"

text \<open>The world at the instant \<open>t\<close> with an exchange that answers every request with one
  candle, and with one that fails every request; the key and the request of a fetch for
  BTC, and a cache whose entry for the key was written at the instant 0.\<close>

definition answering :: "int \<Rightarrow> World" where
  "answering t = \<lparr>now = t, exchange = (\<lambda>r. Some one_candle), generateHistory = (\<lambda>b d. [])\<rparr>"

definition failing :: "int \<Rightarrow> World" where
  "failing t = \<lparr>now = t, exchange = (\<lambda>r. None), generateHistory = (\<lambda>b d. one_candle)\<rparr>"

definition btc_key :: string where
  "btc_key = cacheKey ''BTC'' T1h FUTURES"

definition btc_request :: Request where
  "btc_request = Klines FUTURES ''BTCUSDT'' T1h 200"

definition minute_old :: Cache where
  "minute_old = [btc_key \<mapsto> \<lparr>timestamp = 0, data = one_candle\<rparr>]"

section \<open>Properties\<close>

subsection \<open>Slices, sums and finite numbers\<close>

lemma js_slice_0: "js_slice 0 (int i + 1) xs = take (Suc i) xs"
  by (simp add: js_slice_def rel_index_def Let_def min_def nat_add_distrib)

lemma js_slice_from_neg:
  "0 < n \<Longrightarrow> n \<le> length xs \<Longrightarrow> js_slice_from (- int n) xs = drop (length xs - n) xs"
  by (simp add: js_slice_from_def rel_index_def nat_diff_distrib')

lemma js_slice_from_sub:
  "n \<le> length xs \<Longrightarrow> js_slice_from (int (length xs) - int n) xs = drop (length xs - n) xs"
  by (simp add: js_slice_from_def rel_index_def nat_diff_distrib' min_def)

lemma foldl_jadd_Num: "foldl jadd (Num a) (map Num rs) = Num (a + sum_list rs)"
  by (induction rs arbitrary: a) (simp_all add: add.assoc)

lemma jsum_Num: "jsum (map Num rs) = Num (sum_list rs)"
  by (simp add: jsum_def foldl_jadd_Num)

lemma jsub_Num: "jsub (Num a) (Num b) = Num (a - b)"
  by (simp add: jsub_def)

lemma jge_Num: "jge (Num a) (Num b) = (b \<le> a)"
  by (auto simp: jge_def)

lemma fin_list_map_Num:
  "list_all finite_num xs \<Longrightarrow> xs = map Num (map the_num xs)"
proof (induction xs)
  case Nil
  show ?case by simp
next
  case (Cons x xs)
  then show ?case by (cases x) simp_all
qed

lemma fin_prices_map_Num:
  assumes "list_all (\<lambda>c. finite_num (price c)) cs"
  shows "map price cs = map Num (map (\<lambda>c. the_num (price c)) cs)"
proof -
  have "list_all finite_num (map price cs)"
    using assms by (simp add: list_all_iff)
  from fin_list_map_Num [OF this] show ?thesis by (simp add: comp_def)
qed

lemma moderate_finite: "moderate x \<Longrightarrow> finite_num x"
  by (cases x) simp_all

lemma moderate_prices_finite:
  "list_all (\<lambda>c. moderate (price c)) cs \<Longrightarrow> list_all (\<lambda>c. finite_num (price c)) cs"
  by (simp add: list_all_iff moderate_finite)

lemma moderate_list_finite: "list_all moderate xs \<Longrightarrow> list_all finite_num xs"
  by (simp add: list_all_iff moderate_finite)

subsection \<open>The enrichment pass and the snapshot averages\<close>

lemma length_enrich: "length (enrichDataWithIndicators cs) = length cs"
  by (simp add: enrichDataWithIndicators_def)

lemma enrich_nth:
  "i < length cs \<Longrightarrow>
   enrichDataWithIndicators cs ! i = enrich_point (map price cs) (cs ! i) i"
  by (simp add: enrichDataWithIndicators_def)

lemma price_enrich_point: "price (enrich_point ps c i) = price c"
  by (simp add: enrich_point_def Let_def)

lemma prices_enrich: "map price (enrichDataWithIndicators cs) = map price cs"
  by (rule nth_equalityI) (simp_all add: length_enrich enrich_nth price_enrich_point)

lemma enrich_point_twice: "enrich_point ps (enrich_point ps c i) i = enrich_point ps c i"
  by (simp add: enrich_point_def Let_def)

lemma enrich_fields:
  assumes "i < length cs"
  shows "sma20 (enrichDataWithIndicators cs ! i) = window_sma 20 (take (Suc i) (map price cs))"
    and "sma50 (enrichDataWithIndicators cs ! i) = window_sma 50 (take (Suc i) (map price cs))"
    and "bollingerUpper (enrichDataWithIndicators cs ! i) =
           fst (window_bands (window_sma 20 (take (Suc i) (map price cs)))
                  (take (Suc i) (map price cs)))"
    and "bollingerLower (enrichDataWithIndicators cs ! i) =
           snd (window_bands (window_sma 20 (take (Suc i) (map price cs)))
                  (take (Suc i) (map price cs)))"
  unfolding enrich_nth [OF assms]
  by (simp_all add: enrich_point_def Let_def js_slice_0)

lemma slice_from_take:
  assumes "0 < n" "n \<le> Suc i" "i < length ps"
  shows "js_slice_from (- int n) (take (Suc i) ps) = window n i ps"
proof -
  have len: "length (take (Suc i) ps) = Suc i"
    using assms by simp
  show ?thesis
    using assms js_slice_from_neg [of n "take (Suc i) ps"] by (simp only: len window_def)
qed

lemma window_sma_take:
  assumes "0 < n" "i < length ps"
  shows "window_sma n (take (Suc i) ps) =
     (if n \<le> Suc i then Some (jdiv (jsum (window n i ps)) (Num (real n))) else None)"
proof -
  have len: "length (take (Suc i) ps) = Suc i"
    using assms by simp
  show ?thesis
    using assms by (simp add: window_sma_def len slice_from_take del: length_take)
qed

lemma length_window: "P \<le> Suc i \<Longrightarrow> i < length xs \<Longrightarrow> length (window P i xs) = P"
  by (auto simp: window_def min_def)

lemma window_sma_fin:
  assumes "0 < n"
  shows "window_sma n (map Num xs) =
     (if n \<le> length xs then Some (Num (sum_list (drop (length xs - n) xs) / real n)) else None)"
proof (cases "n \<le> length xs")
  case True
  then have "js_slice_from (- int n) (map Num xs) = map Num (drop (length xs - n) xs)"
    using assms js_slice_from_neg [of n "map Num xs"] by (simp add: drop_map)
  then show ?thesis
    using True assms by (simp add: window_sma_def jsum_Num)
next
  case False
  then show ?thesis by (simp add: window_sma_def)
qed

lemma sq_diffs_Num:
  "map (\<lambda>val. jpow2 (jsub val (Num m))) (map Num rs) = map Num (map (\<lambda>x. (x - m) * (x - m)) rs)"
  by (simp add: jpow2_def jsub_def)

lemma std_dev_fin:
  assumes "0 < d"
  shows "\<exists>sd\<ge>0. jsqrt (jdiv (jsum (map (\<lambda>val. jpow2 (jsub val (Num m))) (map Num rs))) (Num d)) = Num sd"
proof -
  have "0 \<le> sum_list (map (\<lambda>x. (x - m) * (x - m)) rs)"
    by (rule sum_list_nonneg) auto
  then have "\<not> sum_list (map (\<lambda>x. (x - m) * (x - m)) rs) / d < 0"
    using assms by (simp add: not_less)
  then show ?thesis
    unfolding sq_diffs_Num jsum_Num using assms by simp
qed

lemma bands_fin:
  assumes "20 \<le> length rs"
  shows "\<exists>sd\<ge>0. window_bands (Some (Num m)) (map Num rs) =
           (Some (Num (m + sd * 2)), Some (Num (m - sd * 2)))"
proof -
  have sl: "js_slice_from (- 20) (map Num rs) = map Num (drop (length rs - 20) rs)"
    using assms js_slice_from_neg [of 20 "map Num rs"] by (simp add: drop_map)
  obtain sd where sd: "0 \<le> sd"
    "jsqrt (jdiv (jsum (map (\<lambda>val. jpow2 (jsub val (Num m))) (map Num (drop (length rs - 20) rs))))
        (Num 20)) = Num sd"
    using std_dev_fin [of 20] by auto
  have "window_bands (Some (Num m)) (map Num rs) =
          (Some (Num (m + sd * 2)), Some (Num (m - sd * 2)))"
    using assms unfolding window_bands_def sl by (simp add: sd Let_def jsub_Num del: map_map)
  with sd(1) show ?thesis by blast
qed

lemma calculateSMA_fin:
  assumes "0 < n"
  shows "calculateSMA (map Num xs) n =
     Num (if length xs < n then 0 else sum_list (drop (length xs - n) xs) / real n)"
proof (cases "length xs < n")
  case True
  then show ?thesis by (simp add: calculateSMA_def)
next
  case False
  then have "js_slice_from (int (length (map Num xs)) - int n) (map Num xs)
               = map Num (drop (length xs - n) xs)"
    using js_slice_from_sub [of n "map Num xs"] by (simp add: drop_map)
  then show ?thesis
    using False assms by (simp add: calculateSMA_def jsum_Num Let_def)
qed

lemma calculateStdDev_fin:
  assumes "0 < n"
  shows "\<exists>sd\<ge>0. calculateStdDev (map Num xs) n = Num sd"
proof (cases "length xs < n")
  case True
  then show ?thesis by (simp add: calculateStdDev_def)
next
  case False
  then have sl: "js_slice_from (int (length (map Num xs)) - int n) (map Num xs)
               = map Num (drop (length xs - n) xs)"
    using js_slice_from_sub [of n "map Num xs"] by (simp add: drop_map)
  obtain m where m: "calculateSMA (map Num xs) n = Num m"
    using calculateSMA_fin [OF assms] by blast
  have "calculateStdDev (map Num xs) n =
          jsqrt (jdiv (jsum (map (\<lambda>val. jpow2 (jsub val (Num m))) (map Num (drop (length xs - n) xs))))
                   (Num (real n)))"
    using False unfolding calculateStdDev_def sl m by (simp add: Let_def del: map_map)
  then show ?thesis
    using std_dev_fin [of "real n" m "drop (length xs - n) xs"] assms by simp
qed

subsection \<open>The example series\<close>

lemma flat_then_up_moderate: "list_all (\<lambda>c. moderate (price c)) flat_then_up"
  by (simp add: flat_then_up_def list_all_iff curve_point_def)

lemma flat_then_up_length: "length flat_then_up = 20"
  by (simp add: flat_then_up_def)

lemma flat_then_up_full:
  "sma20 (enrichDataWithIndicators flat_then_up ! 19) = Some (Num 1)"
  "bollingerUpper (enrichDataWithIndicators flat_then_up ! 19) = Some (Num 3)"
  "bollingerLower (enrichDataWithIndicators flat_then_up ! 19) = Some (Num (- 1))"
  by (simp_all add: enrich_fields flat_then_up_def window_sma_def window_bands_def
      js_slice_from_def rel_index_def jsum_def jpow2_def jsub_def Let_def numeral_eq_Suc
      curve_point_def)

lemma core_enrich_point: "core (enrich_point ps c i) = core c"
  by (simp add: core_def enrich_point_def Let_def)

lemma core_enrich: "map core (enrichDataWithIndicators cs) = map core cs"
  by (rule nth_equalityI) (simp_all add: length_enrich enrich_nth core_enrich_point)

lemma enrich_point_cong:
  "take (Suc i) ps = take (Suc i) qs \<Longrightarrow> enrich_point ps c i = enrich_point qs c i"
  by (simp add: enrich_point_def js_slice_0)

lemma enrich_causal:
  assumes "take n xs = take n ys" "i < n" "i < length xs" "i < length ys"
  shows "enrichDataWithIndicators xs ! i = enrichDataWithIndicators ys ! i"
proof -
  have m: "min (Suc i) n = Suc i"
    using assms(2) by simp
  have "take (Suc i) (take n (map price xs)) = take (Suc i) (take n (map price ys))"
    using assms(1) by (simp only: take_map)
  then have p: "take (Suc i) (map price xs) = take (Suc i) (map price ys)"
    by (simp only: take_take m)
  have "take n xs ! i = take n ys ! i"
    using assms(1) by simp
  then have "xs ! i = ys ! i"
    using assms(2) by (simp only: nth_take)
  with p show ?thesis
    using assms(3,4) by (simp add: enrich_nth enrich_point_cong [OF p])
qed

lemma nan_tail_fields:
  "sma20 (enrichDataWithIndicators nan_tail ! 19) = Some NaN"
  "bollingerUpper (enrichDataWithIndicators nan_tail ! 19) = Some NaN"
  "bollingerLower (enrichDataWithIndicators nan_tail ! 19) = Some NaN"
  by (simp_all add: enrich_fields nan_tail_def window_sma_def window_bands_def
      js_slice_from_def rel_index_def jsum_def jpow2_def jsub_def Let_def numeral_eq_Suc
      curve_point_def)

subsection \<open>Bollinger ordering\<close>

text \<open>
  Claim C1, amended. For every series of candles whose prices are finite and of magnitude
  at most \<open>10^150\<close>, every point of the enriched series whose three fields
  \<open>bollingerUpper\<close>, \<open>sma20\<close> and \<open>bollingerLower\<close> are defined has
  \<open>bollingerUpper >= sma20 >= bollingerLower\<close>, and the snapshot of
  \<open>performTechnicalAnalysis\<close> has \<open>bollinger.upper >= bollinger.middle >= bollinger.lower\<close>.
\<close>

theorem bollinger_ordering:
  assumes "list_all (\<lambda>c. moderate (price c)) cs"
  shows "(\<forall>i<length cs. \<forall>u m l.
            bollingerUpper (enrichDataWithIndicators cs ! i) = Some u
          \<and> sma20 (enrichDataWithIndicators cs ! i) = Some m
          \<and> bollingerLower (enrichDataWithIndicators cs ! i) = Some l
          \<longrightarrow> jge u m \<and> jge m l)
       \<and> jge (upper (bollinger (performTechnicalAnalysis cs)))
              (middle (bollinger (performTechnicalAnalysis cs)))
       \<and> jge (middle (bollinger (performTechnicalAnalysis cs)))
              (lower (bollinger (performTechnicalAnalysis cs)))"
proof -
  define rs where "rs = map (\<lambda>c. the_num (price c)) cs"
  have "list_all (\<lambda>c. finite_num (price c)) cs"
    using assms by (rule moderate_prices_finite)
  then have ps: "map price cs = map Num rs"
    unfolding rs_def by (rule fin_prices_map_Num)
  have point: "jge u m \<and> jge m l"
    if i: "i < length cs"
      and u: "bollingerUpper (enrichDataWithIndicators cs ! i) = Some u"
      and m: "sma20 (enrichDataWithIndicators cs ! i) = Some m"
      and l: "bollingerLower (enrichDataWithIndicators cs ! i) = Some l"
    for i u m l
  proof -
    let ?w = "take (Suc i) rs"
    have tk: "take (Suc i) (map price cs) = map Num ?w"
      by (simp add: ps take_map)
    have m': "window_sma 20 (map Num ?w) = Some m"
      using enrich_fields(1) [OF i] m by (simp only: tk)
    then have big: "20 \<le> length ?w"
      by (simp add: window_sma_fin split: if_splits)
    from m' obtain mu where mu: "m = Num mu"
      by (auto simp: window_sma_fin split: if_splits)
    obtain sd where sd: "0 \<le> sd"
      "window_bands (Some (Num mu)) (map Num ?w) =
         (Some (Num (mu + sd * 2)), Some (Num (mu - sd * 2)))"
      using bands_fin [OF big] by blast
    have "u = Num (mu + sd * 2)" "l = Num (mu - sd * 2)"
      using enrich_fields(3,4) [OF i] u l unfolding tk m' mu sd(2) by simp_all
    then show ?thesis
      using sd(1) by (simp add: mu jge_Num)
  qed
  obtain mu where mu: "calculateSMA (map Num rs) 20 = Num mu"
    using calculateSMA_fin [of 20 rs] by simp
  obtain sd where sd: "0 \<le> sd" "calculateStdDev (map Num rs) 20 = Num sd"
    using calculateStdDev_fin [of 20 rs] by auto
  have snap: "bollinger (performTechnicalAnalysis cs) =
          \<lparr>upper = Num (mu + sd * 2), middle = Num mu, lower = Num (mu - sd * 2)\<rparr>"
    by (simp add: performTechnicalAnalysis_def Let_def ps mu sd(2) jsub_Num)
  show ?thesis
    using point sd(1) unfolding snap by (simp add: jge_Num)
qed

theorem bollinger_ordering_witness:
  "list_all (\<lambda>c. moderate (price c)) flat_then_up
   \<and> bollingerUpper (enrichDataWithIndicators flat_then_up ! 19) = Some (Num 3)
   \<and> sma20 (enrichDataWithIndicators flat_then_up ! 19) = Some (Num 1)
   \<and> bollingerLower (enrichDataWithIndicators flat_then_up ! 19) = Some (Num (- 1))
   \<and> jge (Num 3) (Num 1) \<and> jge (Num 1) (Num (- 1))
   \<and> jge (upper (bollinger (performTechnicalAnalysis flat_then_up)))
          (middle (bollinger (performTechnicalAnalysis flat_then_up)))
   \<and> jge (middle (bollinger (performTechnicalAnalysis flat_then_up)))
          (lower (bollinger (performTechnicalAnalysis flat_then_up)))"
proof -
  note t = bollinger_ordering [OF flat_then_up_moderate]
  have "19 < length flat_then_up"
    by (simp add: flat_then_up_length)
  with t flat_then_up_full have "jge (Num 3) (Num 1) \<and> jge (Num 1) (Num (- 1))"
    by blast
  with t flat_then_up_moderate flat_then_up_full show ?thesis
    by blast
qed

text \<open>
  The claim as stated fails when a price is not a number: with nineteen candles at 100 and
  a twentieth whose price is NaN, the three fields of the last point are defined, all of
  them NaN, and NaN is not at least NaN.
\<close>

theorem bollinger_ordering_counterexample:
  "19 < length nan_tail
   \<and> sma20 (enrichDataWithIndicators nan_tail ! 19) = Some NaN
   \<and> bollingerUpper (enrichDataWithIndicators nan_tail ! 19) = Some NaN
   \<and> bollingerLower (enrichDataWithIndicators nan_tail ! 19) = Some NaN
   \<and> \<not> jge NaN NaN"
  by (simp add: nan_tail_fields jge_def) (simp add: nan_tail_def)

subsection \<open>Insufficient history\<close>

text \<open>
  Claim C2. The enrichment leaves \<open>sma20\<close> and both Bollinger bands undefined at every
  index below 19 and \<open>sma50\<close> undefined at every index below 49; a value it attaches is
  the mean of the window of exactly 20 (or 50) prices that ends at the index. The
  snapshot path differs: \<open>calculateSMA\<close> returns \<open>0\<close> for a sequence shorter than its
  period.
\<close>

theorem insufficient_data_sentinel:
  assumes "i < length cs" and "length ps < P"
  shows "sma20 (enrichDataWithIndicators cs ! i) =
           (if 19 \<le> i then Some (jdiv (jsum (window 20 i (map price cs))) (Num 20)) else None)
       \<and> sma50 (enrichDataWithIndicators cs ! i) =
           (if 49 \<le> i then Some (jdiv (jsum (window 50 i (map price cs))) (Num 50)) else None)
       \<and> (bollingerUpper (enrichDataWithIndicators cs ! i) = None) = (i < 19)
       \<and> (bollingerLower (enrichDataWithIndicators cs ! i) = None) = (i < 19)
       \<and> (19 \<le> i \<longrightarrow> length (window 20 i (map price cs)) = 20)
       \<and> (49 \<le> i \<longrightarrow> length (window 50 i (map price cs)) = 50)
       \<and> calculateSMA ps P = Num 0"
proof -
  let ?ps = "map price cs"
  have i: "i < length ?ps" using assms(1) by simp
  have len: "length (take (Suc i) ?ps) = Suc i" using i by simp
  have s20: "window_sma 20 (take (Suc i) ?ps) =
      (if 19 \<le> i then Some (jdiv (jsum (window 20 i ?ps)) (Num 20)) else None)"
    using window_sma_take [OF _ i, of 20] by (simp add: Suc_le_eq less_Suc_eq_le)
  have s50: "window_sma 50 (take (Suc i) ?ps) =
      (if 49 \<le> i then Some (jdiv (jsum (window 50 i ?ps)) (Num 50)) else None)"
    using window_sma_take [OF _ i, of 50] by (simp add: Suc_le_eq less_Suc_eq_le)
  have bands: "(fst (window_bands (window_sma 20 (take (Suc i) ?ps)) (take (Suc i) ?ps)) = None) = (i < 19)
             \<and> (snd (window_bands (window_sma 20 (take (Suc i) ?ps)) (take (Suc i) ?ps)) = None) = (i < 19)"
    unfolding s20 window_bands_def len by (auto simp: Let_def)
  note f = enrich_fields [OF assms(1)]
  have w20: "19 \<le> i \<longrightarrow> length (window 20 i ?ps) = 20"
    using i by (simp add: length_window del: length_map)
  have w50: "49 \<le> i \<longrightarrow> length (window 50 i ?ps) = 50"
    using i by (simp add: length_window del: length_map)
  have sma: "calculateSMA ps P = Num 0"
    using assms(2) by (simp add: calculateSMA_def)
  show ?thesis
    unfolding f using s20 s50 bands w20 w50 sma by blast
qed

theorem insufficient_data_sentinel_witness:
  "5 < length flat_then_up \<and> length [Num 1, Num 2] < (20::nat)
   \<and> sma20 (enrichDataWithIndicators flat_then_up ! 5) = None
   \<and> sma50 (enrichDataWithIndicators flat_then_up ! 5) = None
   \<and> bollingerUpper (enrichDataWithIndicators flat_then_up ! 5) = None
   \<and> bollingerLower (enrichDataWithIndicators flat_then_up ! 5) = None
   \<and> calculateSMA [Num 1, Num 2] 20 = Num 0"
proof -
  have h: "5 < length flat_then_up" "length [Num 1, Num 2] < (20::nat)"
    by (simp_all add: flat_then_up_length)
  show ?thesis
    using h insufficient_data_sentinel [OF h] by simp
qed

subsection \<open>Relative strength index\<close>

lemma num_at_Num: "i < length ps \<Longrightarrow> num_at (map Num ps) (int i) = Num (ps ! i)"
  by (simp add: num_at_def)

lemma num_at_Num_pred:
  "0 < i \<Longrightarrow> i < length ps \<Longrightarrow> num_at (map Num ps) (int i - 1) = Num (ps ! (i - 1))"
  by (simp add: num_at_def nat_diff_distrib')

lemma rsi_step_Num:
  assumes "0 < i" "i < length ps"
  shows "rsi_step (map Num ps) i (Num g, Num l) =
           (Num (g + max (ps ! i - ps ! (i - 1)) 0), Num (l + max (- (ps ! i - ps ! (i - 1))) 0))"
  using assms
  by (simp add: rsi_step_def num_at_Num num_at_Num_pred jsub_Num jge_Num Let_def max_def)

lemma rsi_fold_Num:
  assumes "\<forall>i\<in>set js. 0 < i \<and> i < length ps"
  shows "fold (rsi_step (map Num ps)) js (Num g, Num l) =
           (Num (g + sum_list (map (\<lambda>i. max (ps ! i - ps ! (i - 1)) 0) js)),
            Num (l + sum_list (map (\<lambda>i. max (- (ps ! i - ps ! (i - 1))) 0) js)))"
  using assms
proof (induction js arbitrary: g l)
  case Nil
  show ?case by simp
next
  case (Cons j js)
  then show ?case
    by (simp add: rsi_step_Num add.assoc)
qed

lemma rsi_loop:
  assumes "15 \<le> length ps"
  shows "fold (rsi_step (map Num ps)) [length (map Num ps) - 14 ..< length (map Num ps)] (Num 0, Num 0)
           = (Num (14 * avgGain ps), Num (14 * avgLoss ps))"
proof -
  have "\<forall>i\<in>set [length ps - 14 ..< length ps]. 0 < i \<and> i < length ps"
    using assms by auto
  from rsi_fold_Num [OF this, of 0 0] show ?thesis
    by (simp add: avgGain_def avgLoss_def deltas_def comp_def)
qed

lemma avg_nonneg: "0 \<le> avgGain ps" "0 \<le> avgLoss ps"
  by (auto simp: avgGain_def avgLoss_def intro!: sum_list_nonneg divide_nonneg_pos)

lemma rsi_spec_range: "0 \<le> rsi_spec ps \<and> rsi_spec ps \<le> 100"
proof -
  have "0 \<le> 100 - 100 / (1 + avgGain ps / avgLoss ps) \<and> 100 - 100 / (1 + avgGain ps / avgLoss ps) \<le> 100"
    if "avgLoss ps \<noteq> 0"
  proof -
    have "0 \<le> avgGain ps / avgLoss ps"
      using avg_nonneg [of ps] by simp
    then have "1 \<le> 1 + avgGain ps / avgLoss ps" by simp
    then have "100 / (1 + avgGain ps / avgLoss ps) \<le> 100" "0 \<le> 100 / (1 + avgGain ps / avgLoss ps)"
      by (simp_all add: divide_le_eq)
    then show ?thesis by simp
  qed
  then show ?thesis
    by (simp add: rsi_spec_def)
qed

lemma last_deltas_Num:
  assumes "15 \<le> length ps"
  shows "last_deltas (map Num ps) 14 = map Num (deltas ps 14)"
proof -
  have "jsub (num_at (map Num ps) (int i)) (num_at (map Num ps) (int i - 1))
          = Num (ps ! i - ps ! (i - 1))"
    if "i \<in> set [length ps - 14 ..< length ps]" for i
  proof -
    from that assms have "0 < i" "i < length ps" by auto
    then show ?thesis
      by (simp add: num_at_Num num_at_Num_pred jsub_Num)
  qed
  then show ?thesis
    by (simp add: last_deltas_def deltas_def)
qed

lemma gains_Num:
  "foldl jadd (Num a) (filter (\<lambda>d. jgt d (Num 0)) (map Num ds))
     = Num (a + sum_list (map (\<lambda>d. max d 0) ds))"
  by (induction ds arbitrary: a) (simp_all add: jgt_def max_def add.assoc)

lemma losses_Num:
  "foldl jadd (Num a) (map jabs (filter (\<lambda>d. jlt d (Num 0)) (map Num ds)))
     = Num (a + sum_list (map (\<lambda>d. max (- d) 0) ds))"
  by (induction ds arbitrary: a) (simp_all add: max_def add.assoc)

lemma averages_Num:
  assumes "15 \<le> length ps"
  shows "averageGain (map Num ps) = Num (avgGain ps)"
    and "averageLoss (map Num ps) = Num (avgLoss ps)"
  unfolding averageGain_def averageLoss_def last_deltas_Num [OF assms] jsum_def
    gains_Num losses_Num
  by (simp_all add: avgGain_def avgLoss_def)

lemma rsi_denominator: "1 + avgGain ps / avgLoss ps \<noteq> 0"
  using avg_nonneg [of ps] by (smt (verit) divide_nonneg_nonneg)

lemma rsi_words_Num: "rsi_words (map Num ps) = Num (rsi_spec ps)"
proof (cases "length ps < 15")
  case True
  then show ?thesis by (simp add: rsi_words_def rsi_spec_def)
next
  case False
  then have big: "15 \<le> length ps" by simp
  show ?thesis
    using False rsi_denominator [of ps]
    by (simp add: rsi_words_def rsi_spec_def averages_Num [OF big] jsub_Num)
qed

lemma calculateRSI_Num: "calculateRSI (map Num ps) 14 = Num (rsi_spec ps)"
proof (cases "length ps < 15")
  case True
  then show ?thesis by (simp add: calculateRSI_def rsi_spec_def)
next
  case False
  then have big: "15 \<le> length ps" by simp
  show ?thesis
    using False rsi_denominator [of ps] unfolding calculateRSI_def rsi_loop [OF big]
    by (simp add: rsi_spec_def Let_def jsub_Num)
qed

text \<open>
  Claim C3, amended. For every sequence of prices that are finite and of magnitude at most
  \<open>10^150\<close>, \<open>calculateRSI\<close> with period 14 returns the value the specification words:
  50 for fewer than 15 points, 100 when the average loss over the last 14 transitions is
  0, and \<open>100 - 100 / (1 + avgGain / avgLoss)\<close> otherwise, the two averages being the sum
  of the positive deltas and the sum of the absolute negative deltas over 14; and the
  value is a finite number in \<open>[0, 100]\<close>.
\<close>

theorem rsi_value_and_range:
  assumes "list_all moderate prices"
  shows "calculateRSI prices 14 = rsi_words prices
       \<and> (\<exists>r. calculateRSI prices 14 = Num r \<and> 0 \<le> r \<and> r \<le> 100)"
proof -
  have "list_all finite_num prices"
    using assms by (rule moderate_list_finite)
  then have ps: "prices = map Num (map the_num prices)"
    by (rule fin_list_map_Num)
  have "calculateRSI (map Num (map the_num prices)) 14 = rsi_words (map Num (map the_num prices))"
    by (simp only: calculateRSI_Num rsi_words_Num)
  moreover have "\<exists>r. calculateRSI (map Num (map the_num prices)) 14 = Num r \<and> 0 \<le> r \<and> r \<le> 100"
    using rsi_spec_range [of "map the_num prices"] by (simp only: calculateRSI_Num) blast
  ultimately show ?thesis
    using ps by simp
qed

lemma zigzag_rsi: "calculateRSI zigzag 14 = Num (600 / 7)"
  by (simp add: zigzag_def calculateRSI_def rsi_step_def num_at_def jsub_def jge_def Let_def)

theorem rsi_value_and_range_witness:
  "list_all moderate zigzag
   \<and> calculateRSI zigzag 14 = rsi_words zigzag
   \<and> calculateRSI zigzag 14 = Num (600 / 7) \<and> (0::real) \<le> 600 / 7 \<and> (600 / 7 :: real) \<le> 100"
proof -
  have h: "list_all moderate zigzag"
    by (simp add: zigzag_def)
  from rsi_value_and_range [OF h] h zigzag_rsi show ?thesis
    by simp
qed

text \<open>
  The claim as stated fails when a price is not a number: after fourteen prices at 1, a
  price NaN makes the last delta NaN, which the loop subtracts from the losses, and the
  index is NaN, outside \<open>[0, 100]\<close>.
\<close>

theorem rsi_value_and_range_counterexample:
  "replicate 14 (Num 1) @ [NaN] \<noteq> []
   \<and> calculateRSI (replicate 14 (Num 1) @ [NaN]) 14 = NaN
   \<and> \<not> jge NaN (Num 0) \<and> \<not> jge (Num 100) NaN"
  by (simp add: calculateRSI_def rsi_step_def num_at_def jsub_def jge_def Let_def
      numeral_eq_Suc nth_append)

subsection \<open>Scorer\<close>

lemma xgb_score_spec: "xgb_score ind p = Num (spec_score ind p)"
  by (cases "trend ind")
     (simp_all add: xgb_score_def spec_score_def trend_node_def reversion_node_def
        squeeze_node_def momentum_node_def bbWidth_of_def trendScore_of_def Let_def jsub_Num)

text \<open>
  Claim C5. For every snapshot and current price, the score of \<open>predictSignalXGBoost\<close> is
  the sum of the four nodes of the specification, and the signal is BUY exactly when the
  score is above 25, SELL exactly when it is below -25 and HOLD otherwise.
\<close>

theorem scorer_rule_set:
  "xgb_score ind p = Num (spec_score ind p)
   \<and> (signal (predictSignalXGBoost rnd ind p) = BUY) = (25 < spec_score ind p)
   \<and> (signal (predictSignalXGBoost rnd ind p) = SELL) = (spec_score ind p < - 25)
   \<and> (signal (predictSignalXGBoost rnd ind p) = HOLD)
        = (- 25 \<le> spec_score ind p \<and> spec_score ind p \<le> 25)"
  by (auto simp: predictSignalXGBoost_def xgb_score_spec Let_def jgt_def)

lemma squeeze_score: "xgb_score squeeze_snapshot (Num 108) = Num 100"
  by (simp add: xgb_score_def squeeze_snapshot_def bbWidth_of_def trendScore_of_def Let_def
      jsub_def jgt_def)

lemma squeeze_prediction:
  "predictSignalXGBoost (1 / 2) squeeze_snapshot (Num 108) =
     \<lparr>signal = BUY, confidence = Num 95.5,
      features = \<lparr>rsiNormalized = Num (- 1 / 2), trendStrength = Num 1, volatility = Num (4 / 105)\<rparr>\<rparr>"
  by (simp add: predictSignalXGBoost_def squeeze_score jmin_def jmax_def jsub_def jgt_def Let_def)
     (simp add: squeeze_snapshot_def bbWidth_of_def trendScore_of_def jsub_def)

lemma confidence_range:
  assumes "0 \<le> rnd"
  shows "\<exists>c. confidence (predictSignalXGBoost rnd ind p) = Num c \<and> 0 \<le> c \<and> c \<le> 98"
  using assms
  by (simp add: predictSignalXGBoost_def xgb_score_spec Let_def jmin_def jmax_def jsub_Num)

lemma one_candle_snapshot:
  "rsi (performTechnicalAnalysis one_candle) = Num 50"
  "bollinger (performTechnicalAnalysis one_candle) = \<lparr>upper = Num 0, middle = Num 0, lower = Num 0\<rparr>"
  by (simp_all add: performTechnicalAnalysis_def one_candle_def calculateRSI_def calculateSMA_def
      calculateStdDev_def Let_def jsub_Num)

text \<open>
  Claim C6, amended. For every snapshot with a finite \<open>rsi\<close> in \<open>[0, 100]\<close>, every
  current price and every random value in \<open>[0, 1)\<close> (a jitter in \<open>[0, 5)\<close>), the
  prediction has a finite confidence in \<open>[0, 98]\<close>, \<open>rsiNormalized\<close> in \<open>[-1, 1]\<close> and
  \<open>trendStrength\<close> in \<open>{-1, 0, 1}\<close>; its \<open>volatility\<close> is finite and not negative when
  the Bollinger values of the snapshot are finite with \<open>lower \<le> upper\<close> and
  \<open>middle > 0\<close>.
\<close>

theorem prediction_bounds:
  assumes "rsi ind = Num r" "0 \<le> r" "r \<le> 100" "0 \<le> rnd" "rnd < 1"
  shows "(\<exists>c. confidence (predictSignalXGBoost rnd ind p) = Num c \<and> 0 \<le> c \<and> c \<le> 98)
       \<and> (\<exists>x. rsiNormalized (features (predictSignalXGBoost rnd ind p)) = Num x \<and> - 1 \<le> x \<and> x \<le> 1)
       \<and> trendStrength (features (predictSignalXGBoost rnd ind p)) \<in> {Num (- 1), Num 0, Num 1}
       \<and> (\<forall>u m l. upper (bollinger ind) = Num u \<and> middle (bollinger ind) = Num m
              \<and> lower (bollinger ind) = Num l \<and> l \<le> u \<and> 0 < m
            \<longrightarrow> (\<exists>v. volatility (features (predictSignalXGBoost rnd ind p)) = Num v \<and> 0 \<le> v))"
proof -
  have a: "\<exists>x. rsiNormalized (features (predictSignalXGBoost rnd ind p)) = Num x \<and> - 1 \<le> x \<and> x \<le> 1"
  proof -
    have "rsiNormalized (features (predictSignalXGBoost rnd ind p)) = Num ((r - 50) / 50)"
      using assms(1) by (simp add: predictSignalXGBoost_def Let_def jsub_Num)
    moreover have "- 1 \<le> (r - 50) / 50" "(r - 50) / 50 \<le> 1"
      using assms(2,3) by simp_all
    ultimately show ?thesis by blast
  qed
  have b: "trendStrength (features (predictSignalXGBoost rnd ind p)) \<in> {Num (- 1), Num 0, Num 1}"
    by (simp add: predictSignalXGBoost_def Let_def trendScore_of_def)
  have c: "\<exists>v. volatility (features (predictSignalXGBoost rnd ind p)) = Num v \<and> 0 \<le> v"
    if "upper (bollinger ind) = Num u" "middle (bollinger ind) = Num m"
       "lower (bollinger ind) = Num l" "l \<le> u" "0 < m" for u m l
    using that by (simp add: predictSignalXGBoost_def Let_def bbWidth_of_def jsub_Num)
  show ?thesis
    using confidence_range [OF assms(4)] a b c by blast
qed

theorem prediction_bounds_witness:
  "rsi squeeze_snapshot = Num 25 \<and> (0::real) \<le> 25 \<and> (25::real) \<le> 100 \<and> (0::real) \<le> 1 / 2
   \<and> (1 / 2 :: real) < 1
   \<and> upper (bollinger squeeze_snapshot) = Num 107 \<and> middle (bollinger squeeze_snapshot) = Num 105
   \<and> lower (bollinger squeeze_snapshot) = Num 103 \<and> (103::real) \<le> 107 \<and> (0::real) < 105
   \<and> (\<exists>c. confidence (predictSignalXGBoost (1 / 2) squeeze_snapshot (Num 108)) = Num c \<and> 0 \<le> c \<and> c \<le> 98)
   \<and> (\<exists>x. rsiNormalized (features (predictSignalXGBoost (1 / 2) squeeze_snapshot (Num 108))) = Num x
          \<and> - 1 \<le> x \<and> x \<le> 1)
   \<and> trendStrength (features (predictSignalXGBoost (1 / 2) squeeze_snapshot (Num 108)))
        \<in> {Num (- 1), Num 0, Num 1}
   \<and> (\<exists>v. volatility (features (predictSignalXGBoost (1 / 2) squeeze_snapshot (Num 108))) = Num v \<and> 0 \<le> v)"
proof -
  have h: "rsi squeeze_snapshot = Num 25" "(0::real) \<le> 25" "(25::real) \<le> 100" "(0::real) \<le> 1 / 2"
    "(1 / 2 :: real) < 1"
    by (simp_all add: squeeze_snapshot_def)
  have b: "upper (bollinger squeeze_snapshot) = Num 107 \<and> middle (bollinger squeeze_snapshot) = Num 105
     \<and> lower (bollinger squeeze_snapshot) = Num 103 \<and> (103::real) \<le> 107 \<and> (0::real) < 105"
    by (simp add: squeeze_snapshot_def)
  from prediction_bounds [OF h, of "Num 108"] h b show ?thesis
    by blast
qed

text \<open>
  The claim as stated fails on the snapshot of a one-candle history: its \<open>rsi\<close> is 50, its
  three Bollinger values are 0, and the volatility \<open>(0 - 0) / 0\<close> is NaN, and NaN is
  not at least 0.
\<close>

theorem prediction_bounds_counterexample:
  "rsi (performTechnicalAnalysis one_candle) = Num 50
   \<and> volatility (features (predictSignalXGBoost 0 (performTechnicalAnalysis one_candle) (Num 100))) = NaN
   \<and> \<not> jge (volatility (features (predictSignalXGBoost 0 (performTechnicalAnalysis one_candle) (Num 100)))) (Num 0)"
  by (simp add: one_candle_snapshot predictSignalXGBoost_def bbWidth_of_def Let_def jsub_Num
      inf_of_sign_def jge_def)

subsection \<open>Backtest invariant\<close>

lemma solventI: "balance st = Num b \<Longrightarrow> shares st = Num s \<Longrightarrow> 0 \<le> b \<Longrightarrow> 0 \<le> s \<Longrightarrow> solvent st"
  by (simp add: solvent_def)
























text \<open>The two trades on concrete numbers: all cash into shares, and all shares into cash.\<close>

lemma trade_examples:
  "trade \<lparr>signal = BUY, confidence = Num 75, features = ft\<rparr> (Num 50) (backtest_init (Num 10000))
     = (backtest_init (Num 10000))\<lparr>shares := Num 200, balance := Num 0, st_trades := 1\<rparr>"
  "trade \<lparr>signal = SELL, confidence = Num 75, features = ft\<rparr> (Num 60)
       ((backtest_init (Num 10000))\<lparr>shares := Num 200, balance := Num 0, st_trades := 1\<rparr>)
     = (backtest_init (Num 10000))\<lparr>shares := Num 0, balance := Num 12000, st_trades := 1,
          st_winningTrades := 1\<rparr>"
  by (simp_all add: trade_def backtest_init_def jgt_def Let_def)

subsection \<open>Streaming merge\<close>

lemma merge_same:
  assumes "prev \<noteq> []" "date (last prev) = f (k_t k)"
  shows "merge_tick f prev k =
           butlast prev @ [(last prev)\<lparr>date := f (k_t k), price := k_c k, high := Some (k_h k),
                                       low := Some (k_l k), volume := Some (k_v k)\<rparr>]"
proof -
  have "prev = butlast prev @ [last prev]"
    using assms(1) by simp
  then have "prev[length prev - 1 := x] = butlast prev @ [x]" for x
    by (metis length_butlast list_update_length)
  then show ?thesis
    using assms(2) by (simp add: merge_tick_def Let_def)
qed

lemma merge_new:
  assumes "date (last prev) \<noteq> f (k_t k)"
  shows "merge_tick f prev k =
           (if length prev < 200 then prev else tl prev) @
             [\<lparr>date = f (k_t k), price = k_c k, volume = Some (k_v k), high = Some (k_h k),
               low = Some (k_l k), sma20 = None, sma50 = None, bollingerUpper = None,
               bollingerLower = None\<rparr>]"
  using assms by (cases prev) (auto simp: merge_tick_def Let_def)

lemma long_history_facts: "long_history \<noteq> []" "length long_history = 201"
  by (simp_all add: long_history_def)

lemma onmessage_history:
  "history (fst (onmessage f rnd rnds d (Kline k))) = merged_history f (history d) k"
  by (simp add: onmessage_def merged_history_def Let_def)

lemma onmessage_recompute:
  "history d \<noteq> [] \<Longrightarrow>
   snd (onmessage f rnd rnds d (Kline k)) = [Enrichment, Snapshot, Prediction, Backtest]"
  by (simp add: onmessage_def Let_def)

text \<open>
  Claim C7, amended. For every non-empty stored history and every kline tick: if the
  label of the tick is the date of the last stored candle, the stored series keeps its
  length, the merged series differs from the old one in its last element only, the last
  stored candle carries the values of the tick, and an enriched history keeps all its
  other elements as they are; otherwise the candle of the tick is appended, after the
  oldest element is dropped when that makes more than 200. So the length never grows
  beyond the larger of 200 and the previous length, and a window of at most 200 candles
  stays at most 200.
\<close>

theorem streaming_merge_shape:
  assumes "prev \<noteq> []"
  shows "(date (last prev) = f (k_t k) \<longrightarrow>
            length (merged_history f prev k) = length prev
          \<and> butlast (merge_tick f prev k) = butlast prev
          \<and> map core (butlast (merged_history f prev k)) = map core (butlast prev)
          \<and> core (last (merged_history f prev k)) = tick_core f k
          \<and> (enrichDataWithIndicators prev = prev \<longrightarrow>
                butlast (merged_history f prev k) = butlast prev))
       \<and> (date (last prev) \<noteq> f (k_t k) \<longrightarrow>
            map core (merged_history f prev k) =
              map core (if length prev < 200 then prev else tl prev) @ [tick_core f k]
          \<and> length (merged_history f prev k) =
              (if length prev < 200 then length prev + 1 else length prev))
       \<and> length (merged_history f prev k) \<le> max 200 (length prev)
       \<and> (length prev \<le> 200 \<longrightarrow> length (merged_history f prev k) \<le> 200)"
proof -
  have mh: "merged_history f prev k = enrichDataWithIndicators (merge_tick f prev k)"
    using assms by (simp add: merged_history_def)
  have same: "length (merged_history f prev k) = length prev
          \<and> butlast (merge_tick f prev k) = butlast prev
          \<and> map core (butlast (merged_history f prev k)) = map core (butlast prev)
          \<and> core (last (merged_history f prev k)) = tick_core f k
          \<and> (enrichDataWithIndicators prev = prev \<longrightarrow>
                butlast (merged_history f prev k) = butlast prev)"
    if eq: "date (last prev) = f (k_t k)"
  proof -
    note m = merge_same [of prev f k, OF assms eq]
    have len: "length (merge_tick f prev k) = length prev"
      using assms by (simp add: m)
    have cores: "map core (merged_history f prev k) = map core (butlast prev) @ [tick_core f k]"
      by (simp add: mh core_enrich m core_def tick_core_def)
    have "length (merged_history f prev k) = length prev"
      by (simp add: mh length_enrich len)
    then have ne: "merged_history f prev k \<noteq> []"
      using assms by auto
    have c1: "map core (butlast (merged_history f prev k)) = map core (butlast prev)"
      using cores by (simp add: map_butlast)
    have "last (map core (merged_history f prev k)) = tick_core f k"
      unfolding cores by simp
    then have c2: "core (last (merged_history f prev k)) = tick_core f k"
      using ne by (simp add: last_map)
    have enriched: "butlast (merged_history f prev k) = butlast prev"
      if e: "enrichDataWithIndicators prev = prev"
    proof (rule nth_equalityI)
      show "length (butlast (merged_history f prev k)) = length (butlast prev)"
        by (simp add: mh length_enrich len)
    next
      fix i assume "i < length (butlast (merged_history f prev k))"
      then have i: "i < length prev - 1"
        by (simp add: mh length_enrich len)
      have "take (length prev - 1) (merge_tick f prev k) = take (length prev - 1) prev"
        by (simp add: m butlast_conv_take)
      from enrich_causal [OF this i] i len
      have "enrichDataWithIndicators (merge_tick f prev k) ! i = enrichDataWithIndicators prev ! i"
        by simp
      then show "butlast (merged_history f prev k) ! i = butlast prev ! i"
        using i by (simp add: mh e nth_butlast length_enrich len)
    qed
    show ?thesis
      using len c1 c2 enriched m by (simp add: mh length_enrich)
  qed
  have new: "map core (merged_history f prev k) =
              map core (if length prev < 200 then prev else tl prev) @ [tick_core f k]
          \<and> length (merged_history f prev k) =
              (if length prev < 200 then length prev + 1 else length prev)"
    if ne: "date (last prev) \<noteq> f (k_t k)"
    using assms by (simp add: mh core_enrich length_enrich merge_new [of prev f k, OF ne] core_def tick_core_def)
  have bound: "length (merged_history f prev k) \<le> max 200 (length prev)"
    using same new by (cases "date (last prev) = f (k_t k)") (simp_all split: if_splits)
  then have small: "length prev \<le> 200 \<longrightarrow> length (merged_history f prev k) \<le> 200"
    by (simp add: max_def split: if_splits)
  from same new bound small show ?thesis
    by (intro conjI impI) simp_all
qed

theorem streaming_merge_shape_witness:
  "one_candle \<noteq> [] \<and> date (last one_candle) = ''t'' \<and> date (last one_candle) \<noteq> ''u''
   \<and> length one_candle \<le> 200
   \<and> length (merged_history (\<lambda>t. ''t'') one_candle sample_tick) = length one_candle
   \<and> core (last (merged_history (\<lambda>t. ''t'') one_candle sample_tick)) = tick_core (\<lambda>t. ''t'') sample_tick
   \<and> map core (merged_history (\<lambda>t. ''u'') one_candle sample_tick)
        = map core one_candle @ [tick_core (\<lambda>t. ''u'') sample_tick]
   \<and> length (merged_history (\<lambda>t. ''u'') one_candle sample_tick) = 2
   \<and> length (merged_history (\<lambda>t. ''u'') one_candle sample_tick) \<le> 200"
proof -
  have h: "one_candle \<noteq> []" "date (last one_candle) = ''t''" "date (last one_candle) \<noteq> ''u''"
    and len: "length one_candle = 1"
    by (simp_all add: one_candle_def curve_point_def)
  note same = streaming_merge_shape [OF h(1), of "\<lambda>t. ''t''" sample_tick]
  note new = streaming_merge_shape [OF h(1), of "\<lambda>t. ''u''" sample_tick]
  have a: "length (merged_history (\<lambda>t. ''t'') one_candle sample_tick) = length one_candle"
    "core (last (merged_history (\<lambda>t. ''t'') one_candle sample_tick)) = tick_core (\<lambda>t. ''t'') sample_tick"
    using same h(2) by simp_all
  have b: "map core (merged_history (\<lambda>t. ''u'') one_candle sample_tick)
        = map core one_candle @ [tick_core (\<lambda>t. ''u'') sample_tick]"
    "length (merged_history (\<lambda>t. ''u'') one_candle sample_tick) = 2"
    using new h(3) len by simp_all
  show ?thesis
    using h a b len by simp
qed

text \<open>
  The claim as stated fails on a stored history of 201 candles: one element is dropped
  for the one appended, and the window stays at 201.
\<close>

theorem streaming_merge_shape_counterexample:
  "long_history \<noteq> []
   \<and> length (merged_history (\<lambda>t. ''u'') long_history sample_tick) = 201
   \<and> \<not> length (merged_history (\<lambda>t. ''u'') long_history sample_tick) \<le> 200"
proof -
  have d: "date (last long_history) \<noteq> (\<lambda>t. ''u'') (k_t sample_tick)"
    by (simp add: long_history_def last_map curve_point_def)
  have "length (merge_tick (\<lambda>t. ''u'') long_history sample_tick) = 201"
    unfolding merge_new [of long_history "\<lambda>t. ''u''" sample_tick, OF d]
    using long_history_facts by simp
  then show ?thesis
    using long_history_facts by (simp add: merged_history_def length_enrich)
qed

text \<open>
  Claim C10. A kline tick that arrives while the stored history is empty leaves the
  dashboard as it is: the history stays empty and no step of the recompute pipeline runs.
\<close>

theorem empty_history_tick_dropped:
  assumes "history d = []"
  shows "onmessage f rnd rnds d (Kline k) = (d, []) \<and> merged_history f (history d) k = history d"
  using assms by (simp add: onmessage_def merged_history_def)

theorem empty_history_tick_dropped_witness:
  "history idle_dashboard = []
   \<and> onmessage (\<lambda>t. ''label'') 0 (\<lambda>i. 0) idle_dashboard (Kline sample_tick) = (idle_dashboard, [])
   \<and> merged_history (\<lambda>t. ''label'') (history idle_dashboard) sample_tick = history idle_dashboard"
proof -
  have h: "history idle_dashboard = []"
    by (simp add: idle_dashboard_def)
  show ?thesis
    using h empty_history_tick_dropped [OF h, of "\<lambda>t. ''label''" 0 "\<lambda>i. 0" sample_tick] by simp
qed

subsection \<open>Cache\<close>

lemma fetch_hit:
  assumes "cache (cacheKey s iv m) = Some e" "now w - timestamp e < 60000"
  shows "fetchCryptoData w cache s iv n m = \<lparr>series = data e, cache_after = cache, requests = []\<rparr>"
  using assms by (simp add: fetchCryptoData_def CACHE_DURATION_def Let_def)

lemma fetch_miss:
  assumes "\<not> fresh cache (cacheKey s iv m) (now w)"
  shows "fetchCryptoData w cache s iv n m = fetch_live w cache (cacheKey s iv m) s iv n m"
  using assms by (simp add: fetchCryptoData_def fresh_def CACHE_DURATION_def Let_def split: option.splits)

lemma fetch_live_requests: "requests (fetch_live w cache key s iv n m) = [request_of s iv n m]"
  by (simp add: fetch_live_def request_of_def Let_def split: option.splits)

lemma fetch_live_ok:
  assumes "exchange w (request_of s iv n m) = Some rows"
  shows "fetch_live w cache key s iv n m =
     \<lparr>series = enrichDataWithIndicators rows,
      cache_after = cache(key \<mapsto> \<lparr>timestamp = now w, data = enrichDataWithIndicators rows\<rparr>),
      requests = [request_of s iv n m]\<rparr>"
  using assms by (simp add: fetch_live_def request_of_def Let_def)

lemma fetch_live_failed:
  assumes "exchange w (request_of s iv n m) = None"
  shows "cache_after (fetch_live w cache key s iv n m) = cache"
  using assms by (simp add: fetch_live_def request_of_def Let_def)

lemma fetch_live_fallback:
  assumes "exchange w (request_of s iv n m) = None"
  shows "series (fetch_live w cache key s iv n m) = fallback_series w s n"
  using assms by (simp add: fetch_live_def request_of_def fallback_series_def Let_def)

lemma btc_request_of: "request_of ''BTC'' T1h 200 FUTURES = btc_request"
  by (simp add: request_of_def btc_request_def toUpperCase_def upper_char_def)

text \<open>
  Claim C8, amended. A fetch returns the cached series, sends no request and leaves the
  cache as it is exactly when the key has an entry younger than 60 seconds
  (\<open>now - timestamp < 60000\<close>); otherwise it sends one request, and when the exchange
  answers, the entry of the key is overwritten with the enriched answer and the current
  time, while a failed request returns the fallback series of the generator and leaves
  the cache unchanged. So after a fetch that missed
  and was answered, a second fetch for the same key less than 60 seconds later sends no
  request and returns the same series, and one 60 seconds later or more sends a request
  again.
\<close>

theorem cache_ttl:
  "(fresh cache (cacheKey s iv m) (now w) \<longrightarrow>
      requests (fetchCryptoData w cache s iv n m) = []
    \<and> cache_after (fetchCryptoData w cache s iv n m) = cache
    \<and> Some (series (fetchCryptoData w cache s iv n m)) = map_option data (cache (cacheKey s iv m)))
 \<and> (\<not> fresh cache (cacheKey s iv m) (now w) \<longrightarrow>
      requests (fetchCryptoData w cache s iv n m) = [request_of s iv n m]
    \<and> (\<forall>rows. exchange w (request_of s iv n m) = Some rows \<longrightarrow>
          series (fetchCryptoData w cache s iv n m) = enrichDataWithIndicators rows
        \<and> cache_after (fetchCryptoData w cache s iv n m) =
            cache(cacheKey s iv m \<mapsto> \<lparr>timestamp = now w, data = enrichDataWithIndicators rows\<rparr>))
    \<and> (exchange w (request_of s iv n m) = None \<longrightarrow>
          series (fetchCryptoData w cache s iv n m) = fallback_series w s n
        \<and> cache_after (fetchCryptoData w cache s iv n m) = cache))
 \<and> (\<forall>rows w2. \<not> fresh cache (cacheKey s iv m) (now w)
        \<and> exchange w (request_of s iv n m) = Some rows \<longrightarrow>
      (now w2 - now w < 60000 \<longrightarrow>
         requests (fetchCryptoData w2 (cache_after (fetchCryptoData w cache s iv n m)) s iv n m) = []
       \<and> series (fetchCryptoData w2 (cache_after (fetchCryptoData w cache s iv n m)) s iv n m)
           = enrichDataWithIndicators rows)
    \<and> (60000 \<le> now w2 - now w \<longrightarrow>
         requests (fetchCryptoData w2 (cache_after (fetchCryptoData w cache s iv n m)) s iv n m)
           = [request_of s iv n m]))"
proof -
  let ?key = "cacheKey s iv m"
  have hit: "requests (fetchCryptoData w cache s iv n m) = []
    \<and> cache_after (fetchCryptoData w cache s iv n m) = cache
    \<and> Some (series (fetchCryptoData w cache s iv n m)) = map_option data (cache ?key)"
    if "fresh cache ?key (now w)"
  proof -
    from that obtain e where e: "cache ?key = Some e" "now w - timestamp e < 60000"
      by (auto simp: fresh_def split: option.splits)
    show ?thesis
      using fetch_hit [of cache s iv m e w n] e by simp
  qed
  have miss: "requests (fetchCryptoData w cache s iv n m) = [request_of s iv n m]
    \<and> (\<forall>rows. exchange w (request_of s iv n m) = Some rows \<longrightarrow>
          series (fetchCryptoData w cache s iv n m) = enrichDataWithIndicators rows
        \<and> cache_after (fetchCryptoData w cache s iv n m) =
            cache(?key \<mapsto> \<lparr>timestamp = now w, data = enrichDataWithIndicators rows\<rparr>))
    \<and> (exchange w (request_of s iv n m) = None \<longrightarrow>
          series (fetchCryptoData w cache s iv n m) = fallback_series w s n
        \<and> cache_after (fetchCryptoData w cache s iv n m) = cache)"
    if "\<not> fresh cache ?key (now w)"
    by (simp add: fetch_miss [OF that] fetch_live_requests fetch_live_ok fetch_live_failed
        fetch_live_fallback)
  have second: "(now w2 - now w < 60000 \<longrightarrow>
         requests (fetchCryptoData w2 (cache_after (fetchCryptoData w cache s iv n m)) s iv n m) = []
       \<and> series (fetchCryptoData w2 (cache_after (fetchCryptoData w cache s iv n m)) s iv n m)
           = enrichDataWithIndicators rows)
    \<and> (60000 \<le> now w2 - now w \<longrightarrow>
         requests (fetchCryptoData w2 (cache_after (fetchCryptoData w cache s iv n m)) s iv n m)
           = [request_of s iv n m])"
    if "\<not> fresh cache ?key (now w)" "exchange w (request_of s iv n m) = Some rows" for rows w2
  proof -
    let ?c = "cache(?key \<mapsto> \<lparr>timestamp = now w, data = enrichDataWithIndicators rows\<rparr>)"
    have c: "cache_after (fetchCryptoData w cache s iv n m) = ?c"
      using miss that by blast
    have a: "fetchCryptoData w2 ?c s iv n m = \<lparr>series = enrichDataWithIndicators rows, cache_after = ?c, requests = []\<rparr>"
      if "now w2 - now w < 60000"
      using fetch_hit [of ?c s iv m "\<lparr>timestamp = now w, data = enrichDataWithIndicators rows\<rparr>" w2 n] that
      by simp
    have b: "requests (fetchCryptoData w2 ?c s iv n m) = [request_of s iv n m]"
      if "60000 \<le> now w2 - now w"
    proof -
      have "\<not> fresh ?c ?key (now w2)"
        using that by (simp add: fresh_def)
      then show ?thesis
        by (simp add: fetch_miss fetch_live_requests)
    qed
    show ?thesis
      unfolding c using a b by simp
  qed
  show ?thesis
    using hit miss second by blast
qed

theorem cache_ttl_witness:
  "\<not> fresh Map.empty (cacheKey ''BTC'' T1h FUTURES) (now (answering 0))
   \<and> exchange (answering 0) (request_of ''BTC'' T1h 200 FUTURES) = Some one_candle
   \<and> now (answering 59999) - now (answering 0) < 60000
   \<and> 60000 \<le> now (answering 61000) - now (answering 0)
   \<and> requests (fetchCryptoData (answering 0) Map.empty ''BTC'' T1h 200 FUTURES) = [btc_request]
   \<and> requests (fetchCryptoData (answering 59999)
         (cache_after (fetchCryptoData (answering 0) Map.empty ''BTC'' T1h 200 FUTURES))
         ''BTC'' T1h 200 FUTURES) = []
   \<and> requests (fetchCryptoData (answering 61000)
         (cache_after (fetchCryptoData (answering 0) Map.empty ''BTC'' T1h 200 FUTURES))
         ''BTC'' T1h 200 FUTURES) = [btc_request]
   \<and> \<not> fresh Map.empty (cacheKey ''BTC'' T1h FUTURES) (now (failing 0))
   \<and> exchange (failing 0) (request_of ''BTC'' T1h 200 FUTURES) = None
   \<and> series (fetchCryptoData (failing 0) Map.empty ''BTC'' T1h 200 FUTURES)
        = enrichDataWithIndicators one_candle
   \<and> cache_after (fetchCryptoData (failing 0) Map.empty ''BTC'' T1h 200 FUTURES) = Map.empty"
proof -
  note t = cache_ttl [of Map.empty "''BTC''" T1h FUTURES "answering 0" 200]
  note t' = cache_ttl [of Map.empty "''BTC''" T1h FUTURES "failing 0" 200]
  have h': "\<not> fresh Map.empty (cacheKey ''BTC'' T1h FUTURES) (now (failing 0))"
    "exchange (failing 0) (request_of ''BTC'' T1h 200 FUTURES) = None"
    by (simp_all add: fresh_def failing_def)
  from t' h' have "series (fetchCryptoData (failing 0) Map.empty ''BTC'' T1h 200 FUTURES)
        = fallback_series (failing 0) ''BTC'' 200
     \<and> cache_after (fetchCryptoData (failing 0) Map.empty ''BTC'' T1h 200 FUTURES) = Map.empty"
    by blast
  then have failed: "series (fetchCryptoData (failing 0) Map.empty ''BTC'' T1h 200 FUTURES)
        = enrichDataWithIndicators one_candle"
    "cache_after (fetchCryptoData (failing 0) Map.empty ''BTC'' T1h 200 FUTURES) = Map.empty"
    by (simp_all add: fallback_series_def failing_def)
  have h: "\<not> fresh Map.empty (cacheKey ''BTC'' T1h FUTURES) (now (answering 0))"
    "exchange (answering 0) (request_of ''BTC'' T1h 200 FUTURES) = Some one_candle"
    by (simp_all add: fresh_def answering_def)
  have g: "now (answering 59999) - now (answering 0) < 60000"
    "60000 \<le> now (answering 61000) - now (answering 0)"
    by (simp_all add: answering_def)
  have first: "requests (fetchCryptoData (answering 0) Map.empty ''BTC'' T1h 200 FUTURES) = [btc_request]"
    using t h(1) by (simp add: btc_request_of)
  from t h have "\<forall>w2. (now w2 - now (answering 0) < 60000 \<longrightarrow>
         requests (fetchCryptoData w2 (cache_after (fetchCryptoData (answering 0) Map.empty ''BTC'' T1h 200 FUTURES)) ''BTC'' T1h 200 FUTURES) = []
       \<and> series (fetchCryptoData w2 (cache_after (fetchCryptoData (answering 0) Map.empty ''BTC'' T1h 200 FUTURES)) ''BTC'' T1h 200 FUTURES)
           = enrichDataWithIndicators one_candle)
    \<and> (60000 \<le> now w2 - now (answering 0) \<longrightarrow>
         requests (fetchCryptoData w2 (cache_after (fetchCryptoData (answering 0) Map.empty ''BTC'' T1h 200 FUTURES)) ''BTC'' T1h 200 FUTURES)
           = [request_of ''BTC'' T1h 200 FUTURES])"
    by blast
  then have second:
    "requests (fetchCryptoData (answering 59999)
         (cache_after (fetchCryptoData (answering 0) Map.empty ''BTC'' T1h 200 FUTURES))
         ''BTC'' T1h 200 FUTURES) = []"
    "requests (fetchCryptoData (answering 61000)
         (cache_after (fetchCryptoData (answering 0) Map.empty ''BTC'' T1h 200 FUTURES))
         ''BTC'' T1h 200 FUTURES) = [btc_request]"
    using g by (simp_all add: btc_request_of)
  show ?thesis
    using h g first second h' failed by simp
qed

text \<open>
  The claim as stated fails at an age of exactly 60 seconds, where the entry is not older
  than the duration and a request is sent all the same; and two fetches one second apart
  send two requests when the first request fails, since a fallback series is not cached.
\<close>

theorem cache_ttl_counterexample:
  "minute_old btc_key = Some \<lparr>timestamp = 0, data = one_candle\<rparr>
   \<and> \<not> (now (answering 60000) - 0 > CACHE_DURATION)
   \<and> requests (fetchCryptoData (answering 60000) minute_old ''BTC'' T1h 200 FUTURES) = [btc_request]
   \<and> requests (fetchCryptoData (failing 0) Map.empty ''BTC'' T1h 200 FUTURES) = [btc_request]
   \<and> requests (fetchCryptoData (failing 1000)
         (cache_after (fetchCryptoData (failing 0) Map.empty ''BTC'' T1h 200 FUTURES))
         ''BTC'' T1h 200 FUTURES) = [btc_request]"
proof -
  have a: "minute_old btc_key = Some \<lparr>timestamp = 0, data = one_candle\<rparr>"
    by (simp add: minute_old_def)
  have b: "\<not> (now (answering 60000) - 0 > CACHE_DURATION)"
    by (simp add: answering_def CACHE_DURATION_def)
  have c: "requests (fetchCryptoData (answering 60000) minute_old ''BTC'' T1h 200 FUTURES) = [btc_request]"
    using a by (simp add: fetchCryptoData_def btc_key_def [symmetric] CACHE_DURATION_def answering_def
        fetch_live_requests btc_request_of)
  have d: "fetchCryptoData (failing t) Map.empty ''BTC'' T1h 200 FUTURES =
             fetch_live (failing t) Map.empty btc_key ''BTC'' T1h 200 FUTURES" for t
    by (simp add: fetchCryptoData_def btc_key_def)
  have e: "cache_after (fetch_live (failing 0) Map.empty btc_key ''BTC'' T1h 200 FUTURES) = Map.empty"
    by (rule fetch_live_failed) (simp add: failing_def)
  show ?thesis
    using a b c by (simp add: d e fetch_live_requests btc_request_of)
qed

subsection \<open>Idempotence of the enrichment\<close>

text \<open>
  Claim C9. Enriching an enriched series returns it unchanged: the pass reads the prices
  only and overwrites the four indicator fields.
\<close>

theorem enrich_idempotent:
  "enrichDataWithIndicators (enrichDataWithIndicators cs) = enrichDataWithIndicators cs"
  by (rule nth_equalityI)
     (simp_all add: length_enrich enrich_nth prices_enrich enrich_point_twice)

end
